theory Spec2Isabelle
  imports Complex_Main "HOL-Library.Sublist" "HOL-Library.AList"
begin

section \<open>Python values and string operations used by the scripts\<close>

text \<open>
  Strings are byte lists: a Python \<open>str\<close> is represented by its UTF-8 encoding and a
  \<open>bytes\<close> object by itself, so \<open>content.encode("utf-8")\<close> is the identity here.
  Substring tests and slicing between two found substrings agree on both views.
\<close>

text \<open>A value produced by \<open>json.loads\<close>. An object is its key/value list.\<close>

datatype json =
    JNull
  | JBool bool
  | JInt int
  | JFloat real
  | JStr string
  | JArr "json list"
  | JObj "(string \<times> json) list"

text \<open>Python truthiness of such a value (\<open>if x:\<close>, \<open>x and y\<close>, \<open>not x\<close>).\<close>

fun truthy :: "json \<Rightarrow> bool" where
  "truthy JNull = False"
| "truthy (JBool b) = b"
| "truthy (JInt i) = (i \<noteq> 0)"
| "truthy (JFloat r) = (r \<noteq> 0)"
| "truthy (JStr s) = (s \<noteq> [])"
| "truthy (JArr xs) = (xs \<noteq> [])"
| "truthy (JObj kvs) = (kvs \<noteq> [])"

text \<open>\<open>sub in s\<close> on strings.\<close>

fun str_in :: "string \<Rightarrow> string \<Rightarrow> bool" where
  "str_in sub [] = (sub = [])"
| "str_in sub (c # cs) = (prefix sub (c # cs) \<or> str_in sub cs)"

text \<open>\<open>s.index(sub)\<close>: the first position, \<open>None\<close> for \<open>ValueError\<close>.\<close>

fun str_find :: "string \<Rightarrow> string \<Rightarrow> nat option" where
  "str_find sub [] = (if sub = [] then Some 0 else None)"
| "str_find sub (c # cs) =
     (if prefix sub (c # cs) then Some 0 else map_option Suc (str_find sub cs))"

text \<open>\<open>s.index(sub, start)\<close>.\<close>

definition str_index :: "string \<Rightarrow> string \<Rightarrow> nat \<Rightarrow> nat option" where
  "str_index s sub start =
     (if length s < start then None
      else map_option (\<lambda>i. i + start) (str_find sub (drop start s)))"

text \<open>\<open>s[start:end]\<close> for \<open>start \<le> end\<close>.\<close>

definition slice :: "string \<Rightarrow> nat \<Rightarrow> nat \<Rightarrow> string" where
  "slice s start end = take (end - start) (drop start s)"

text \<open>
  \<open>s.strip()\<close>. The characters Python removes are those for which \<open>str.isspace\<close> holds:
  U+0009 to U+000D, U+001C to U+0020, U+0085, U+00A0, U+1680, U+2000 to U+200A, U+2028,
  U+2029, U+202F, U+205F and U+3000. \<open>white_space\<close> lists their UTF-8 encodings;
  \<open>strip_left pats\<close> removes leading occurrences of the patterns as long as there is one,
  and \<open>strip\<close> does so at both ends.
\<close>

definition white_space :: "string list" where
  "white_space =
     [[CHR 0x09], [CHR 0x0A], [CHR 0x0B], [CHR 0x0C], [CHR 0x0D],
      [CHR 0x1C], [CHR 0x1D], [CHR 0x1E], [CHR 0x1F], [CHR 0x20],
      [CHR 0xC2, CHR 0x85], [CHR 0xC2, CHR 0xA0],
      [CHR 0xE1, CHR 0x9A, CHR 0x80],
      [CHR 0xE2, CHR 0x80, CHR 0x80], [CHR 0xE2, CHR 0x80, CHR 0x81],
      [CHR 0xE2, CHR 0x80, CHR 0x82], [CHR 0xE2, CHR 0x80, CHR 0x83],
      [CHR 0xE2, CHR 0x80, CHR 0x84], [CHR 0xE2, CHR 0x80, CHR 0x85],
      [CHR 0xE2, CHR 0x80, CHR 0x86], [CHR 0xE2, CHR 0x80, CHR 0x87],
      [CHR 0xE2, CHR 0x80, CHR 0x88], [CHR 0xE2, CHR 0x80, CHR 0x89],
      [CHR 0xE2, CHR 0x80, CHR 0x8A],
      [CHR 0xE2, CHR 0x80, CHR 0xA8], [CHR 0xE2, CHR 0x80, CHR 0xA9],
      [CHR 0xE2, CHR 0x80, CHR 0xAF], [CHR 0xE2, CHR 0x81, CHR 0x9F],
      [CHR 0xE3, CHR 0x80, CHR 0x80]]"

definition skip_space :: "string list \<Rightarrow> string \<Rightarrow> string option" where
  "skip_space pats s =
     map_option (\<lambda>p. drop (length p) s) (find (\<lambda>p. p \<noteq> [] \<and> prefix p s) pats)"

function strip_left :: "string list \<Rightarrow> string \<Rightarrow> string" where
  "strip_left pats s = (case skip_space pats s of None \<Rightarrow> s | Some r \<Rightarrow> strip_left pats r)"
  by pat_completeness auto
termination
  by (relation "measure (\<lambda>(pats, s). length s)")
    (auto simp: skip_space_def find_Some_iff prefix_def)

declare strip_left.simps [simp del]

definition strip :: "string \<Rightarrow> string" where
  "strip s = rev (strip_left (map rev white_space) (rev (strip_left white_space s)))"

text \<open>\<open>str(n)\<close> for a natural number, as an f-string prints it.\<close>

definition digit_char :: "nat \<Rightarrow> char" where
  "digit_char d = ''0123456789'' ! d"

fun show_nat :: "nat \<Rightarrow> string" where
  "show_nat n = (if n < 10 then [digit_char n] else show_nat (n div 10) @ [digit_char (n mod 10)])"

declare show_nat.simps [simp del]

section \<open>The platform: change request, calls, faults\<close>

text \<open>One comment of the change request; \<open>c_body\<close> may be null (\<open>c.body or ""\<close>).\<close>

record comment =
  c_id :: nat
  c_body :: "string option"

text \<open>One entry of \<open>pr.get_files()\<close>.\<close>

record changed_file =
  filename :: string
  raw_url :: "string option"

text \<open>What \<open>requests.get\<close> returns; \<open>error_text\<close> is the message \<open>raise_for_status\<close> raises with.\<close>

record response =
  status_code :: nat
  content :: string
  error_text :: string

text \<open>What \<open>Image.open\<close> returns.\<close>

record image =
  format :: string
  width :: nat
  height :: nat

text \<open>Every call the scripts make on the hosting platform, and \<open>print\<close>.\<close>

datatype call =
    GetRepo
  | GetPull json
  | GetIssue json
  | GetFiles
  | GetLabels
  | GetComments
  | RemoveFromLabels string
  | AddToLabels string
  | CreateComment string
  | DeleteComment nat
  | Print string

text \<open>
  The state the scripts act on: the labels and comments of the change request, the trace of
  calls made so far, and the module global \<open>validation_success\<close> of the validator process.
\<close>

record state =
  labels :: "string list"
  comments :: "comment list"
  next_id :: nat
  log :: "call list"
  validation_success :: bool

text \<open>
  Everything the scripts read and do not write. \<open>fault t c\<close> is the message of the exception
  that call \<open>c\<close> raises when it is the \<open>t\<close>-th call of the run, if it raises. Fetches
  (\<open>requests.get\<close>, \<open>repo.get_contents\<close>), \<open>json\<close>, \<open>hashlib\<close> and \<open>PIL\<close> are functions
  of the world; \<open>Inl\<close> is the message of the exception raised.
\<close>

record world =
  environ :: "string \<Rightarrow> string option"
  event_file :: "string \<Rightarrow> (string + json) option"
  pr_files :: "changed_file list"
  head_ref :: string
  fault :: "nat \<Rightarrow> call \<Rightarrow> string option"
  requests_get :: "string \<Rightarrow> string + response"
  get_contents :: "string \<Rightarrow> string \<Rightarrow> string + string"
  sha256 :: "string \<Rightarrow> string"
  json_loads :: "string \<Rightarrow> string + json"
  json_dumps :: "json \<Rightarrow> string"
  image_open :: "string \<Rightarrow> string + image"
  repr :: "json \<Rightarrow> string"

text \<open>
  The result of running a piece of script: it falls through to the next statement with a
  value, it executes \<open>return\<close> in \<open>main\<close>, or it raises an exception nobody caught so far.
\<close>

datatype 'a res = Next 'a state | Done state | Raise string state

type_synonym 'a prog = "state \<Rightarrow> 'a res"

definition ret :: "'a \<Rightarrow> 'a prog" where
  "ret a s = Next a s"

definition bind :: "'a prog \<Rightarrow> ('a \<Rightarrow> 'b prog) \<Rightarrow> 'b prog" where
  "bind m f s = (case m s of Next a s' \<Rightarrow> f a s' | Done s' \<Rightarrow> Done s' | Raise e s' \<Rightarrow> Raise e s')"

definition seq :: "'a prog \<Rightarrow> 'b prog \<Rightarrow> 'b prog" where
  "seq m k = bind m (\<lambda>_. k)"

text \<open>\<open>try: m except Exception as e: h e\<close>.\<close>

definition try_except :: "'a prog \<Rightarrow> (string \<Rightarrow> 'a prog) \<Rightarrow> 'a prog" where
  "try_except m h s = (case m s of Raise e s' \<Rightarrow> h e s' | r \<Rightarrow> r)"

definition raise :: "string \<Rightarrow> 'a prog" where
  "raise e s = Raise e s"

definition lift :: "string + 'a \<Rightarrow> 'a prog" where
  "lift r = (case r of Inl e \<Rightarrow> raise e | Inr a \<Rightarrow> ret a)"

definition api :: "world \<Rightarrow> call \<Rightarrow> unit prog" where
  "api w c s =
     (let s' = s\<lparr>log := log s @ [c]\<rparr>
      in case fault w (length (log s)) c of Some e \<Rightarrow> Raise e s' | None \<Rightarrow> Next () s')"

definition print :: "string \<Rightarrow> unit prog" where
  "print msg s = Next () (s\<lparr>log := log s @ [Print msg]\<rparr>)"

definition get_files :: "world \<Rightarrow> changed_file list prog" where
  "get_files w = seq (api w GetFiles) (ret (pr_files w))"

definition get_labels :: "world \<Rightarrow> string list prog" where
  "get_labels w = seq (api w GetLabels) (\<lambda>s. Next (labels s) s)"

definition get_comments :: "world \<Rightarrow> comment list prog" where
  "get_comments w = seq (api w GetComments) (\<lambda>s. Next (comments s) s)"

definition remove_from_labels :: "world \<Rightarrow> string \<Rightarrow> unit prog" where
  "remove_from_labels w lab =
     seq (api w (RemoveFromLabels lab)) (\<lambda>s. Next () (s\<lparr>labels := removeAll lab (labels s)\<rparr>))"

definition add_to_labels :: "world \<Rightarrow> string \<Rightarrow> unit prog" where
  "add_to_labels w lab =
     seq (api w (AddToLabels lab)) (\<lambda>s. Next () (s\<lparr>labels := List.insert lab (labels s)\<rparr>))"

definition create_comment :: "world \<Rightarrow> string \<Rightarrow> unit prog" where
  "create_comment w body =
     seq (api w (CreateComment body))
       (\<lambda>s. Next () (s\<lparr>comments := comments s @ [\<lparr>c_id = next_id s, c_body = Some body\<rparr>],
                       next_id := Suc (next_id s)\<rparr>))"

definition delete_comment :: "world \<Rightarrow> comment \<Rightarrow> unit prog" where
  "delete_comment w c =
     seq (api w (DeleteComment (c_id c)))
       (\<lambda>s. Next () (s\<lparr>comments := filter (\<lambda>d. c_id d \<noteq> c_id c) (comments s)\<rparr>))"


section \<open>Python operations on parsed JSON\<close>

text \<open>\<open>k in x\<close> for a string \<open>k\<close>: key of a dict, element of a list, substring of a string.\<close>

fun py_in :: "string \<Rightarrow> json \<Rightarrow> bool prog" where
  "py_in k (JObj kvs) = ret (map_of kvs k \<noteq> None)"
| "py_in k (JArr xs) = ret (JStr k \<in> set xs)"
| "py_in k (JStr s) = ret (str_in k s)"
| "py_in k JNull = raise ''TypeError''"
| "py_in k (JBool b) = raise ''TypeError''"
| "py_in k (JInt i) = raise ''TypeError''"
| "py_in k (JFloat r) = raise ''TypeError''"

text \<open>\<open>x[k]\<close> for a string \<open>k\<close>.\<close>

fun py_getitem :: "json \<Rightarrow> string \<Rightarrow> json prog" where
  "py_getitem (JObj kvs) k = (case map_of kvs k of None \<Rightarrow> raise ''KeyError'' | Some v \<Rightarrow> ret v)"
| "py_getitem x k = raise ''TypeError''"

text \<open>\<open>x.get(k, d)\<close>.\<close>

fun py_get :: "json \<Rightarrow> string \<Rightarrow> json \<Rightarrow> json prog" where
  "py_get (JObj kvs) k d = ret (case map_of kvs k of None \<Rightarrow> d | Some v \<Rightarrow> v)"
| "py_get x k d = raise ''AttributeError''"

text \<open>\<open>x.strip()\<close>.\<close>

fun py_strip :: "json \<Rightarrow> string prog" where
  "py_strip (JStr s) = ret (strip s)"
| "py_strip x = raise ''AttributeError''"

text \<open>\<open>str(x)\<close>, as an f-string formats \<open>x\<close>.\<close>

definition py_str :: "world \<Rightarrow> json \<Rightarrow> string" where
  "py_str w x = (case x of JStr s \<Rightarrow> s | _ \<Rightarrow> repr w x)"

text \<open>\<open>sep.join(xs)\<close>.\<close>

fun join :: "string \<Rightarrow> string list \<Rightarrow> string" where
  "join sep [] = []"
| "join sep [x] = x"
| "join sep (x # y # ys) = x @ sep @ join sep (y # ys)"

section \<open>Code shared by both scripts\<close>

definition MARKER_START :: string where
  "MARKER_START = ''<!-- MANIFEST_HASHES''"

definition MARKER_END :: string where
  "MARKER_END = ''END MANIFEST_HASHES -->''"

definition sha256_bytes :: "world \<Rightarrow> string \<Rightarrow> string" where
  "sha256_bytes w data = sha256 w data"

definition load_event :: "world \<Rightarrow> json prog" where
  "load_event w =
     (case environ w ''GITHUB_EVENT_PATH'' of
        None \<Rightarrow> ret (JObj [])
      | Some path \<Rightarrow>
          if path = [] then ret (JObj [])
          else (case event_file w path of
                  None \<Rightarrow> ret (JObj [])
                | Some r \<Rightarrow> lift r))"

definition get_pr_number_issue :: "json \<Rightarrow> json prog" where
  "get_pr_number_issue event =
     bind (py_in ''issue'' event) (\<lambda>has_issue.
       if has_issue then
         bind (py_getitem event ''issue'') (\<lambda>issue.
         bind (py_get issue ''pull_request'' JNull) (\<lambda>p.
           if truthy p then
             bind (py_getitem event ''issue'') (\<lambda>issue'. py_getitem issue' ''number'')
           else ret JNull))
       else ret JNull)"

definition get_pr_number :: "json \<Rightarrow> json prog" where
  "get_pr_number event =
     bind (py_in ''pull_request'' event) (\<lambda>has_pr.
       if has_pr then
         bind (py_getitem event ''pull_request'') (\<lambda>p.
           if truthy p then
             bind (py_getitem event ''pull_request'') (\<lambda>p'. py_getitem p' ''number'')
           else get_pr_number_issue event)
       else get_pr_number_issue event)"

text \<open>\<open>f.filename.startswith("manifests/") and f.filename.endswith(".json")\<close>.\<close>

definition is_manifest :: "changed_file \<Rightarrow> bool" where
  "is_manifest f = (prefix ''manifests/'' (filename f) \<and> suffix ''.json'' (filename f))"

text \<open>\<open>c.body or ""\<close>.\<close>

definition body_or_empty :: "comment \<Rightarrow> string" where
  "body_or_empty c = (case c_body c of None \<Rightarrow> [] | Some b \<Rightarrow> b)"

section \<open>validate\_manifest.py\<close>

definition ICON_MAX_SIZE :: nat where "ICON_MAX_SIZE = 4096"
definition ICON_WIDTH :: nat where "ICON_WIDTH = 32"
definition ICON_HEIGHT :: nat where "ICON_HEIGHT = 32"

definition REQUIRED_FIELDS :: "string list" where
  "REQUIRED_FIELDS =
     [''package'', ''name'', ''author'', ''version'', ''category'', ''description'',
      ''url'', ''sha256'', ''api_level'', ''permissions'', ''min_os_version'']"

text \<open>The UTF-8 bytes of the cross mark and of the check mark that start the messages.\<close>

definition cross_mark :: string where
  "cross_mark = [CHR 0xE2, CHR 0x9D, CHR 0x8C]"

definition check_mark :: string where
  "check_mark = [CHR 0xE2, CHR 0x9C, CHR 0x85]"

definition em_dash :: string where
  "em_dash = [CHR 0xE2, CHR 0x80, CHR 0x94]"

text \<open>
  The loop that deletes every comment carrying the start marker, written twice in the
  source: in \<open>post_marker_comment\<close> and at the end of the failure path of \<open>main\<close>.
\<close>

fun delete_marker_comments :: "world \<Rightarrow> comment list \<Rightarrow> unit prog" where
  "delete_marker_comments w [] = ret ()"
| "delete_marker_comments w (c # cs) =
     seq (if str_in MARKER_START (body_or_empty c)
          then try_except (delete_comment w c) (\<lambda>e. ret ())
          else ret ())
         (delete_marker_comments w cs)"

definition marker_body :: "world \<Rightarrow> json \<Rightarrow> string" where
  "marker_body w data_dict = MARKER_START @ [CHR 0x0A] @ json_dumps w data_dict @ [CHR 0x0A] @ MARKER_END"

definition post_marker_comment :: "world \<Rightarrow> json \<Rightarrow> unit prog" where
  "post_marker_comment w data_dict =
     bind (get_comments w) (\<lambda>cs.
     seq (delete_marker_comments w cs)
         (create_comment w (marker_body w data_dict)))"

text \<open>\<open>r = requests.get(url); r.raise_for_status(); r.content\<close>.\<close>

definition fetch_checked :: "world \<Rightarrow> string \<Rightarrow> string + string" where
  "fetch_checked w url =
     (case requests_get w url of
        Inl e \<Rightarrow> Inl e
      | Inr r \<Rightarrow> if 400 \<le> status_code r \<and> status_code r < 600 then Inl (error_text r)
                 else Inr (content r))"

text \<open>The argument \<open>requests.get\<close> sees for an attribute that may be \<open>None\<close>.\<close>

definition url_arg :: "string option \<Rightarrow> string" where
  "url_arg u = (case u of None \<Rightarrow> ''None'' | Some x \<Rightarrow> x)"

definition icon_path :: "world \<Rightarrow> json \<Rightarrow> string" where
  "icon_path w pkg = ''icons/'' @ py_str w pkg @ ''.png''"

text \<open>Lines 97 to 111: the checks on the bytes of the icon.\<close>

definition check_icon_content :: "world \<Rightarrow> string \<Rightarrow> bool \<times> string option" where
  "check_icon_content w cont =
     (if length cont > ICON_MAX_SIZE
      then (False, Some (''Icon size exceeds '' @ show_nat ICON_MAX_SIZE @ '' bytes''))
      else (case image_open w cont of
              Inl e \<Rightarrow> (False, Some (''Icon image invalid: '' @ e))
            | Inr img \<Rightarrow>
                if format img \<noteq> ''PNG'' then (False, Some ''Icon is not PNG'')
                else if width img \<noteq> ICON_WIDTH \<or> height img \<noteq> ICON_HEIGHT
                then (False, Some (''Icon dimensions must be '' @ show_nat ICON_WIDTH @ ''x''
                                   @ show_nat ICON_HEIGHT))
                else (True, None)))"

definition validate_icon_for_package :: "world \<Rightarrow> json \<Rightarrow> (bool \<times> string option) prog" where
  "validate_icon_for_package w pkg =
     bind (get_files w) (\<lambda>files.
       ret (case find (\<lambda>f. filename f = icon_path w pkg) files of
              Some icon_file \<Rightarrow>
                (case fetch_checked w (url_arg (raw_url icon_file)) of
                   Inl e \<Rightarrow> (False, Some (''Failed to download icon from PR: '' @ e))
                 | Inr cont \<Rightarrow> check_icon_content w cont)
            | None \<Rightarrow>
                (case get_contents w (icon_path w pkg) ''main'' of
                   Inl e \<Rightarrow> (False, Some ''Icon not found in PR or main branch'')
                 | Inr cont \<Rightarrow> check_icon_content w cont)))"


text \<open>What the file loop of \<open>main\<close> accumulates: \<open>errors\<close> and \<open>current_hashes\<close>.\<close>

record acc =
  errors :: "string list"
  current_hashes :: "(string \<times> string) list"

text \<open>\<open>errors.append(e); validation_success = False\<close>.\<close>

definition add_error :: "string \<Rightarrow> acc \<Rightarrow> acc prog" where
  "add_error e a s = Next (a\<lparr>errors := errors a @ [e]\<rparr>) (s\<lparr>validation_success := False\<rparr>)"

text \<open>Lines 149 to 159: the bytes of one manifest file.\<close>

definition read_manifest_file :: "world \<Rightarrow> changed_file \<Rightarrow> string + string" where
  "read_manifest_file w mf =
     (case raw_url mf of
        Some u \<Rightarrow> if u \<noteq> [] then fetch_checked w u
                  else get_contents w (filename mf) (head_ref w)
      | None \<Rightarrow> get_contents w (filename mf) (head_ref w))"

text \<open>Lines 174 to 177.\<close>

fun check_required_fields :: "string \<Rightarrow> json \<Rightarrow> string list \<Rightarrow> acc \<Rightarrow> acc prog" where
  "check_required_fields fname manifest [] a = ret a"
| "check_required_fields fname manifest (f # fs) a =
     bind (py_in f manifest) (\<lambda>present.
     bind (if \<not> present
           then add_error (cross_mark @ '' '' @ fname @ '': missing required field '' @ [CHR 0x27]
                           @ f @ [CHR 0x27]) a
           else ret a)
          (check_required_fields fname manifest fs))"

text \<open>Lines 183 to 190.\<close>

definition check_icon :: "world \<Rightarrow> string \<Rightarrow> json \<Rightarrow> acc \<Rightarrow> acc prog" where
  "check_icon w fname pkg a =
     (if truthy pkg then
        bind (validate_icon_for_package w pkg) (\<lambda>(ok, reason).
          if \<not> ok
          then add_error (cross_mark @ '' manifests/'' @ py_str w pkg @ ''.json: icon problem: ''
                          @ (case reason of None \<Rightarrow> ''None'' | Some r \<Rightarrow> r)) a
          else ret a)
      else add_error (cross_mark @ '' '' @ fname @ '': package field missing, cannot validate icon'') a)"

text \<open>Lines 192 to 208.\<close>

definition check_url :: "world \<Rightarrow> string \<Rightarrow> json \<Rightarrow> json \<Rightarrow> acc \<Rightarrow> acc prog" where
  "check_url w fname url declared_sha a =
     (if truthy url then
        (case requests_get w (py_str w url) of
           Inl e \<Rightarrow> add_error (cross_mark @ '' '' @ fname @ '': failed to download file: '' @ e) a
         | Inr rr \<Rightarrow>
             if status_code rr \<noteq> 200
             then add_error (cross_mark @ '' '' @ fname @ '': URL returned HTTP ''
                             @ show_nat (status_code rr)) a
             else (let actual = sha256_bytes w (content rr)
                   in if truthy declared_sha \<and> JStr actual \<noteq> declared_sha
                      then add_error (cross_mark @ '' '' @ fname @ '': sha256 mismatch (expected ''
                                      @ py_str w declared_sha @ '', got '' @ actual @ '')'') a
                      else ret a))
      else add_error (cross_mark @ '' '' @ fname @ '': url is empty'') a)"

text \<open>Lines 147 to 208: the body of the loop for one manifest file.\<close>

definition validate_file :: "world \<Rightarrow> changed_file \<Rightarrow> acc \<Rightarrow> acc prog" where
  "validate_file w mf a =
     (let fname = filename mf in
      case read_manifest_file w mf of
        Inl e \<Rightarrow> add_error (cross_mark @ '' '' @ fname @ '': failed to read file from PR branch: '' @ e) a
      | Inr file_bytes \<Rightarrow>
          (let a1 = a\<lparr>current_hashes :=
                        AList.update fname (sha256_bytes w file_bytes) (current_hashes a)\<rparr>
           in case json_loads w file_bytes of
                Inl e \<Rightarrow> add_error (cross_mark @ '' '' @ fname @ '': invalid JSON ('' @ e @ '')'') a1
              | Inr manifest \<Rightarrow>
                  bind (check_required_fields fname manifest REQUIRED_FIELDS a1) (\<lambda>a2.
                  bind (py_get manifest ''package'' JNull) (\<lambda>pkg.
                  bind (py_get manifest ''url'' JNull) (\<lambda>url.
                  bind (py_get manifest ''sha256'' JNull) (\<lambda>declared_sha.
                  bind (check_icon w fname pkg a2) (\<lambda>a3.
                  check_url w fname url declared_sha a3)))))))"

fun validate_files :: "world \<Rightarrow> changed_file list \<Rightarrow> acc \<Rightarrow> acc prog" where
  "validate_files w [] a = ret a"
| "validate_files w (mf # mfs) a = bind (validate_file w mf a) (validate_files w mfs)"

text \<open>\<open>current_hashes\<close> as the dict handed to \<open>json.dumps\<close>.\<close>

definition hashes_json :: "(string \<times> string) list \<Rightarrow> json" where
  "hashes_json h = JObj (map (\<lambda>(k, v). (k, JStr v)) h)"

text \<open>Lines 212 to 238: the run failed.\<close>

definition failure_report :: "string list \<Rightarrow> string" where
  "failure_report errs =
     ''Manifest validation failed:'' @ [CHR 0x0A, CHR 0x0A] @ join [CHR 0x0A] errs
     @ [CHR 0x0A, CHR 0x0A]
     @ ''Fix the issues and then comment `@bot check` to request a new validation.''"

definition on_failure :: "world \<Rightarrow> string list \<Rightarrow> acc \<Rightarrow> unit prog" where
  "on_failure w labs a =
     seq (if ''Under review'' \<in> set labs
          then try_except (remove_from_labels w ''Under review'') (\<lambda>e. ret ())
          else ret ())
    (seq (if ''Invalid manifest'' \<notin> set labs
          then try_except (add_to_labels w ''Invalid manifest'') (\<lambda>e. ret ())
          else ret ())
    (seq (create_comment w (failure_report (errors a)))
    (bind (get_comments w) (\<lambda>cs.
     seq (delete_marker_comments w cs)
         Done))))"

text \<open>Lines 240 to 265: the run succeeded.\<close>

definition success_message :: string where
  "success_message =
     check_mark @ '' Manifest validation successful.'' @ [CHR 0x0A]
     @ ''The manifest(s) are now locked for moderator review.'' @ [CHR 0x0A, CHR 0x0A]
     @ ''Moderator commands:'' @ [CHR 0x0A]
     @ ''- `@bot allow` '' @ em_dash @ '' approve the PR'' @ [CHR 0x0A]
     @ ''- `@bot deny` '' @ em_dash @ '' reject the PR''"

definition on_success :: "world \<Rightarrow> string list \<Rightarrow> acc \<Rightarrow> unit prog" where
  "on_success w labs a =
     seq (if ''Invalid manifest'' \<in> set labs
          then try_except (remove_from_labels w ''Invalid manifest'') (\<lambda>e. ret ())
          else ret ())
    (seq (if ''Under review'' \<notin> set labs
          then try_except (add_to_labels w ''Under review'') (\<lambda>e. ret ())
          else ret ())
    (seq (try_except (post_marker_comment w (hashes_json (current_hashes a)))
            (\<lambda>e. seq (create_comment w
                         (''Manifests validated, but failed to store hash marker: '' @ e @ [CHR 0x0A]
                          @ ''Moderator review required.''))
                 (\<lambda>s. Done (s\<lparr>validation_success := False\<rparr>))))
         (create_comment w success_message)))"

text \<open>\<open>not x\<close> for \<open>x = os.environ.get(name)\<close>.\<close>

definition env_missing :: "world \<Rightarrow> string \<Rightarrow> bool" where
  "env_missing w name = (case environ w name of None \<Rightarrow> True | Some v \<Rightarrow> v = [])"

text \<open>Lines 135 to 265: \<open>main\<close> once the change request is known.\<close>

definition validate_changed_files :: "world \<Rightarrow> unit prog" where
  "validate_changed_files w =
     bind (get_files w) (\<lambda>changed_files.
       let manifests_files = filter is_manifest changed_files in
       if manifests_files = [] then
         seq (create_comment w ''No manifests found in this PR.'')
             (\<lambda>s. Done (s\<lparr>validation_success := False\<rparr>))
       else
         bind (validate_files w manifests_files \<lparr>errors = [], current_hashes = []\<rparr>) (\<lambda>a.
         bind (get_labels w) (\<lambda>labs s.
           if \<not> validation_success s then on_failure w labs a s
           else on_success w labs a s)))"

definition main_validate_manifest :: "world \<Rightarrow> unit prog" where
  "main_validate_manifest w =
     (if env_missing w ''GITHUB_TOKEN'' \<or> env_missing w ''GITHUB_REPOSITORY''
      then seq (print ''Missing GitHub environment variables'') Done
      else
        seq (api w GetRepo)
       (bind (load_event w) (\<lambda>event.
        bind (get_pr_number event) (\<lambda>pr_number.
          if \<not> truthy pr_number then seq (print ''No pull request context'') Done
          else
            seq (api w (GetPull pr_number))
           (seq (api w (GetIssue pr_number))
                (validate_changed_files w))))))"

text \<open>
  Running the script as a process: the module is loaded, which sets the global
  \<open>validation_success\<close> to \<open>True\<close> (line 34), and \<open>main\<close> is called.
\<close>

definition validate_manifest_script :: "world \<Rightarrow> unit prog" where
  "validate_manifest_script w s = main_validate_manifest w (s\<lparr>validation_success := True\<rparr>)"


section \<open>bot\_commands.py\<close>

definition MODERATOR :: "world \<Rightarrow> string" where
  "MODERATOR w = (case environ w ''BOT_USER'' of None \<Rightarrow> ''Artyomka628'' | Some v \<Rightarrow> v)"

definition MODERATOR2 :: "world \<Rightarrow> string" where
  "MODERATOR2 w = (case environ w ''BOT_USER2'' of None \<Rightarrow> ''QuietOS-dev'' | Some v \<Rightarrow> v)"

text \<open>Lines 35 to 47, on the comments newest first.\<close>

fun scan_marker_comments :: "world \<Rightarrow> comment list \<Rightarrow> (comment \<times> json) option" where
  "scan_marker_comments w [] = None"
| "scan_marker_comments w (c # cs) =
     (let body = body_or_empty c in
      if str_in MARKER_START body \<and> str_in MARKER_END body then
        (case str_index body MARKER_START 0 of
           None \<Rightarrow> scan_marker_comments w cs
         | Some i \<Rightarrow>
             (let start = i + length MARKER_START in
              case str_index body MARKER_END start of
                None \<Rightarrow> scan_marker_comments w cs
              | Some end \<Rightarrow>
                  (case json_loads w (strip (slice body start end)) of
                     Inl e \<Rightarrow> scan_marker_comments w cs
                   | Inr data \<Rightarrow> Some (c, data))))
      else scan_marker_comments w cs)"

definition find_marker_comment :: "world \<Rightarrow> comment list \<Rightarrow> (comment \<times> json) option" where
  "find_marker_comment w cs = scan_marker_comments w (rev cs)"

text \<open>Lines 53 to 63: one entry per manifest file, \<open>None\<close> when its content cannot be read.\<close>

fun hash_manifests :: "world \<Rightarrow> changed_file list \<Rightarrow> (string \<times> string option) list
    \<Rightarrow> (string \<times> string option) list" where
  "hash_manifests w [] hashes = hashes"
| "hash_manifests w (mf # mfs) hashes =
     hash_manifests w mfs
       (AList.update (filename mf)
          (case get_contents w (filename mf) (head_ref w) of
             Inl e \<Rightarrow> None
           | Inr b \<Rightarrow> Some (sha256_bytes w b))
          hashes)"

definition compute_current_hashes :: "world \<Rightarrow> (string \<times> string option) list prog" where
  "compute_current_hashes w =
     bind (get_files w) (\<lambda>files. ret (hash_manifests w (filter is_manifest files) []))"

fun remove_each :: "world \<Rightarrow> string list \<Rightarrow> string list \<Rightarrow> unit prog" where
  "remove_each w existing [] = ret ()"
| "remove_each w existing (lab # labs) =
     seq (if lab \<in> set existing
          then try_except (remove_from_labels w lab) (\<lambda>e. ret ())
          else ret ())
         (remove_each w existing labs)"

definition remove_labels :: "world \<Rightarrow> string list \<Rightarrow> unit prog" where
  "remove_labels w labels_to_remove =
     bind (get_labels w) (\<lambda>existing. remove_each w existing labels_to_remove)"

text \<open>
  \<open>subprocess.run(["python", ".github/scripts/validate_manifest.py"], env=os.environ)\<close>:
  the validator runs as a process of its own in the same environment, and its exit status is
  1 when an exception ends it. Its module global is not the caller's.
\<close>

definition run_validate_manifest :: "world \<Rightarrow> nat prog" where
  "run_validate_manifest w s =
     (case validate_manifest_script w s of
        Next u s' \<Rightarrow> Next 0 (s'\<lparr>validation_success := validation_success s\<rparr>)
      | Done s' \<Rightarrow> Next 0 (s'\<lparr>validation_success := validation_success s\<rparr>)
      | Raise e s' \<Rightarrow> Next 1 (s'\<lparr>validation_success := validation_success s\<rparr>))"

text \<open>The bytes that start the messages of this script, as they are in the file.\<close>

definition glyph_rerun :: string where
  "glyph_rerun = [CHR 0xEF, CHR 0xA3, CHR 0xBF, CHR 0xC3, CHR 0xBC, CHR 0xC3, CHR 0xAE, CHR 0xC3, CHR 0x85]"

definition glyph_ok :: string where
  "glyph_ok = [CHR 0xE2, CHR 0x80, CHR 0x9A, CHR 0xC3, CHR 0xBA, CHR 0xC3, CHR 0x96]"

definition glyph_warn :: string where
  "glyph_warn = [CHR 0xE2, CHR 0x80, CHR 0x9A, CHR 0xC3, CHR 0xB6, CHR 0xE2, CHR 0x80, CHR 0xA0,
                 CHR 0xC3, CHR 0x94, CHR 0xE2, CHR 0x88, CHR 0x8F, CHR 0xC3, CHR 0xA8]"

definition glyph_no :: string where
  "glyph_no = [CHR 0xE2, CHR 0x80, CHR 0x9A, CHR 0xC3, CHR 0xB9, CHR 0xC3, CHR 0xA5]"

definition glyph_info :: string where
  "glyph_info = [CHR 0xE2, CHR 0x80, CHR 0x9A, CHR 0xC3, CHR 0x91, CHR 0xCF, CHR 0x80,
                 CHR 0xC3, CHR 0x94, CHR 0xE2, CHR 0x88, CHR 0x8F, CHR 0xC3, CHR 0xA8]"

definition only_moderators_msg :: "world \<Rightarrow> string" where
  "only_moderators_msg w =
     glyph_no @ '' Only @'' @ MODERATOR w @ '' or @'' @ MODERATOR2 w @ '' can approve or deny PRs.''"

definition unknown_command_msg :: string where
  "unknown_command_msg =
     glyph_info @ '' Unknown command. Supported: `@bot check`, `@bot allow`, `@bot deny`.''"

text \<open>\<open>comment_user != MODERATOR and comment_user != MODERATOR2\<close>.\<close>

definition not_moderator :: "world \<Rightarrow> json \<Rightarrow> bool" where
  "not_moderator w comment_user =
     (comment_user \<noteq> JStr (MODERATOR w) \<and> comment_user \<noteq> JStr (MODERATOR2 w))"

text \<open>Lines 105 to 110.\<close>

definition stmt_no_mention :: "world \<Rightarrow> json \<Rightarrow> string \<Rightarrow> unit prog" where
  "stmt_no_mention w event comment_body =
     (if \<not> str_in ''@bot'' comment_body then
        bind (py_in ''pull_request'' event) (\<lambda>is_pr.
        seq (if is_pr then seq (run_validate_manifest w) (ret ()) else ret ())
            Done)
      else ret ())"

text \<open>Lines 113 to 120.\<close>

definition stmt_check :: "world \<Rightarrow> string \<Rightarrow> json \<Rightarrow> unit prog" where
  "stmt_check w comment_body comment_user =
     (if str_in ''@bot check'' comment_body then
        seq (create_comment w (glyph_rerun @ '' Running manifest validation as requested by @''
                               @ py_str w comment_user @ ''...''))
       (bind (run_validate_manifest w) (\<lambda>returncode.
        seq (if returncode = 0
             then create_comment w (glyph_ok @ '' Validation completed.'')
             else create_comment w (glyph_warn
                    @ '' Validation finished with internal note. See comments above.''))
            Done))
      else ret ())"

text \<open>Lines 123 to 126.\<close>

definition stmt_allow :: "world \<Rightarrow> string \<Rightarrow> json \<Rightarrow> unit prog" where
  "stmt_allow w comment_body comment_user =
     (if str_in ''@bot allow'' comment_body then
        (if not_moderator w comment_user
         then seq (create_comment w (only_moderators_msg w)) Done
         else ret ())
      else ret ())"

text \<open>Lines 129 to 136, at the indentation of the function body.\<close>

definition stmt_approve :: "world \<Rightarrow> unit prog" where
  "stmt_approve w =
     seq (remove_labels w [''Invalid manifest'', ''Under review'', ''Rejected''])
    (seq (try_except (add_to_labels w ''Approved'') (\<lambda>e. ret ()))
    (seq (create_comment w (glyph_ok @ '' PR has been approved by moderator.''))
         Done))"

text \<open>Lines 139 to 151.\<close>

definition stmt_deny :: "world \<Rightarrow> string \<Rightarrow> json \<Rightarrow> unit prog" where
  "stmt_deny w comment_body comment_user =
     (if str_in ''@bot deny'' comment_body then
        (if not_moderator w comment_user
         then seq (create_comment w (''DEBUG: comment_user = '' @ [CHR 0x27]
                                     @ py_str w comment_user @ [CHR 0x27]))
             (seq (create_comment w (only_moderators_msg w)) Done)
         else
           seq (remove_labels w [''Invalid manifest'', ''Under review'', ''Approved''])
          (seq (try_except (add_to_labels w ''Rejected'') (\<lambda>e. ret ()))
          (seq (create_comment w (glyph_no @ '' PR has been rejected by moderator.''))
               Done)))
      else ret ())"

text \<open>Line 154.\<close>

definition stmt_unknown :: "world \<Rightarrow> unit prog" where
  "stmt_unknown w = create_comment w unknown_command_msg"

text \<open>Lines 104 to 154: the statements of \<open>main\<close> after the comment is extracted, in order.\<close>

definition dispatch :: "world \<Rightarrow> json \<Rightarrow> string \<Rightarrow> json \<Rightarrow> unit prog" where
  "dispatch w event comment_body comment_user =
     seq (stmt_no_mention w event comment_body)
    (seq (stmt_check w comment_body comment_user)
    (seq (stmt_allow w comment_body comment_user)
    (seq (stmt_approve w)
    (seq (stmt_deny w comment_body comment_user)
         (stmt_unknown w)))))"

text \<open>\<open>os.environ.get(name, "")\<close>.\<close>

definition env_or_empty :: "world \<Rightarrow> string \<Rightarrow> string" where
  "env_or_empty w name = (case environ w name of None \<Rightarrow> [] | Some v \<Rightarrow> v)"

text \<open>Lines 95 to 102: the body and the author of the comment.\<close>

definition extract_comment :: "world \<Rightarrow> json \<Rightarrow> (string \<times> json) prog" where
  "extract_comment w event =
     bind (py_in ''comment'' event) (\<lambda>has_comment.
     bind (if has_comment then bind (py_getitem event ''comment'') (\<lambda>c. ret (truthy c))
           else ret False) (\<lambda>use_comment.
       if use_comment then
         bind (py_getitem event ''comment'') (\<lambda>c.
         bind (py_get c ''body'' (JStr [])) (\<lambda>b.
         bind (py_strip b) (\<lambda>comment_body.
         bind (py_getitem event ''comment'') (\<lambda>c'.
         bind (py_get c' ''user'' (JObj [])) (\<lambda>u.
         bind (py_get u ''login'' (JStr [])) (\<lambda>comment_user.
           ret (comment_body, comment_user)))))))
       else ret (env_or_empty w ''GITHUB_EVENT_COMMENT_BODY'',
                 JStr (env_or_empty w ''GITHUB_ACTOR''))))"

definition main_bot_commands :: "world \<Rightarrow> unit prog" where
  "main_bot_commands w =
     (if env_missing w ''GITHUB_TOKEN'' \<or> env_missing w ''GITHUB_REPOSITORY''
      then seq (print ''Missing env'') Done
      else
        seq (api w GetRepo)
       (bind (load_event w) (\<lambda>event.
        bind (get_pr_number event) (\<lambda>pr_number.
          if \<not> truthy pr_number then seq (print ''No PR context'') Done
          else
            seq (api w (GetPull pr_number))
           (seq (api w (GetIssue pr_number))
           (bind (extract_comment w event) (\<lambda>(comment_body, comment_user).
              dispatch w event comment_body comment_user)))))))"


section \<open>Observing a run\<close>

text \<open>The state a run ends in, however it ends, and the calls it made.\<close>

fun final :: "'a res \<Rightarrow> state" where
  "final (Next a s) = s"
| "final (Done s) = s"
| "final (Raise e s) = s"

definition new_calls :: "state \<Rightarrow> 'a res \<Rightarrow> call list" where
  "new_calls s r = drop (length (log s)) (log (final r))"

text \<open>
  \<open>tracked P s s'\<close>: from \<open>s\<close> to \<open>s'\<close> the trace grew by calls that satisfy \<open>P\<close> only, a
  label is lost only if \<open>P\<close> admits its removal and gained only if \<open>P\<close> admits its addition.
  \<open>calls_only P m\<close>: every run of \<open>m\<close> is of that kind, however it ends.
\<close>

definition tracked :: "(call \<Rightarrow> bool) \<Rightarrow> state \<Rightarrow> state \<Rightarrow> bool" where
  "tracked P s s' =
     ((\<exists>cs. log s' = log s @ cs \<and> list_all P cs)
      \<and> (\<forall>l \<in> set (labels s). \<not> P (RemoveFromLabels l) \<longrightarrow> l \<in> set (labels s'))
      \<and> (\<forall>l \<in> set (labels s'). \<not> P (AddToLabels l) \<longrightarrow> l \<in> set (labels s)))"

definition calls_only :: "(call \<Rightarrow> bool) \<Rightarrow> 'a prog \<Rightarrow> bool" where
  "calls_only P m = (\<forall>s. tracked P s (final (m s)))"

definition is_label_call :: "call \<Rightarrow> bool" where
  "is_label_call c = (case c of RemoveFromLabels l \<Rightarrow> True | AddToLabels l \<Rightarrow> True | _ \<Rightarrow> False)"

text \<open>The calls the validator can make, and the calls the dispatcher can make.\<close>

definition validator_call :: "call \<Rightarrow> bool" where
  "validator_call c =
     (case c of
        RemoveFromLabels l \<Rightarrow> l = ''Under review'' \<or> l = ''Invalid manifest''
      | AddToLabels l \<Rightarrow> l = ''Invalid manifest'' \<or> l = ''Under review''
      | CreateComment b \<Rightarrow>
          b = ''No manifests found in this PR.''
          \<or> prefix ''Manifest validation failed:'' b
          \<or> prefix MARKER_START b
          \<or> prefix ''Manifests validated, but failed to store hash marker: '' b
          \<or> b = success_message
      | _ \<Rightarrow> True)"

definition dispatcher_call :: "world \<Rightarrow> call \<Rightarrow> bool" where
  "dispatcher_call w c =
     (validator_call c \<or>
      (case c of
         RemoveFromLabels l \<Rightarrow> l = ''Rejected''
       | AddToLabels l \<Rightarrow> l = ''Approved''
       | CreateComment b \<Rightarrow>
           prefix glyph_rerun b
           \<or> b = glyph_ok @ '' Validation completed.''
           \<or> prefix glyph_warn b
           \<or> b = only_moderators_msg w
           \<or> b = glyph_ok @ '' PR has been approved by moderator.''
       | _ \<Rightarrow> False))"

text \<open>
  The state after \<open>try: pr.remove_from_labels(l) except Exception: pass\<close> and after
  \<open>try: pr.add_to_labels(l) except Exception: pass\<close>: the call is made, and it takes effect
  unless it raised.
\<close>

definition after_remove :: "world \<Rightarrow> string \<Rightarrow> state \<Rightarrow> state" where
  "after_remove w l s =
     s\<lparr>log := log s @ [RemoveFromLabels l],
       labels := (if fault w (length (log s)) (RemoveFromLabels l) = None
                  then removeAll l (labels s) else labels s)\<rparr>"

definition after_add :: "world \<Rightarrow> string \<Rightarrow> state \<Rightarrow> state" where
  "after_add w l s =
     s\<lparr>log := log s @ [AddToLabels l],
       labels := (if fault w (length (log s)) (AddToLabels l) = None
                  then List.insert l (labels s) else labels s)\<rparr>"

text \<open>The line of the report for a required field \<open>f\<close> that the manifest \<open>fname\<close> lacks.\<close>

definition missing_field_line :: "string \<Rightarrow> string \<Rightarrow> string" where
  "missing_field_line fname f =
     cross_mark @ '' '' @ fname @ '': missing required field '' @ [CHR 0x27] @ f @ [CHR 0x27]"

text \<open>
  \<open>grows a s a' s'\<close>: from \<open>(a, s)\<close> to \<open>(a', s')\<close> errors were only appended, and
  \<open>validation_success\<close> is still set exactly if it was and no error was appended.
\<close>

definition grows :: "acc \<Rightarrow> state \<Rightarrow> acc \<Rightarrow> state \<Rightarrow> bool" where
  "grows a s a' s' =
     (prefix (errors a) (errors a')
      \<and> (validation_success s' \<longleftrightarrow> validation_success s \<and> errors a' = errors a))"

text \<open>
  The ledger entries the file loop is to leave behind, file by file: the digest of the bytes
  of every manifest file that could be read, under the path of the file.
\<close>

fun recorded_hashes :: "world \<Rightarrow> changed_file list \<Rightarrow> (string \<times> string) list
    \<Rightarrow> (string \<times> string) list" where
  "recorded_hashes w [] h = h"
| "recorded_hashes w (mf # mfs) h =
     recorded_hashes w mfs
       (case read_manifest_file w mf of
          Inl e \<Rightarrow> h
        | Inr b \<Rightarrow> AList.update (filename mf) (sha256_bytes w b) h)"

text \<open>The lines of the report for the artifact of the manifest \<open>fname\<close>.\<close>

definition url_empty_line :: "string \<Rightarrow> string" where
  "url_empty_line fname = cross_mark @ '' '' @ fname @ '': url is empty''"

definition fetch_error_line :: "string \<Rightarrow> string \<Rightarrow> string" where
  "fetch_error_line fname e = cross_mark @ '' '' @ fname @ '': failed to download file: '' @ e"

definition http_status_line :: "string \<Rightarrow> nat \<Rightarrow> string" where
  "http_status_line fname n = cross_mark @ '' '' @ fname @ '': URL returned HTTP '' @ show_nat n"

definition hash_mismatch_line :: "string \<Rightarrow> string \<Rightarrow> string \<Rightarrow> string" where
  "hash_mismatch_line fname declared actual =
     cross_mark @ '' '' @ fname @ '': sha256 mismatch (expected '' @ declared @ '', got ''
     @ actual @ '')''"



section \<open>Example runs\<close>

text \<open>A change request with no label and no comment, before any call.\<close>

definition fresh_cr :: state where
  "fresh_cr = \<lparr>labels = [], comments = [], next_id = 0, log = [], validation_success = True\<rparr>"

text \<open>An environment in which every call succeeds and the change request touches no file.\<close>

definition empty_pr_world :: world where
  "empty_pr_world =
     \<lparr>environ = map_of [(''GITHUB_TOKEN'', ''t''), (''GITHUB_REPOSITORY'', ''QuietOS-dev/Store'')],
      event_file = (\<lambda>p. None),
      pr_files = [],
      head_ref = ''patch-1'',
      fault = (\<lambda>t c. None),
      requests_get = (\<lambda>u. Inl ''unreachable''),
      get_contents = (\<lambda>p r. Inl ''404''),
      sha256 = (\<lambda>b. ''00''),
      json_loads = (\<lambda>t. Inl ''no JSON''),
      json_dumps = (\<lambda>j. ''{}''),
      image_open = (\<lambda>b. Inl ''no image''),
      repr = (\<lambda>j. ''?'')\<rparr>"

text \<open>
  The ledger text that \<open>json.dumps(..., indent=2)\<close> prints for the one entry
  \<open>manifests/app.json\<close> with digest \<open>aaaa\<close>, and the dict it stands for.
\<close>

definition ledger_json :: json where
  "ledger_json = JObj [(''manifests/app.json'', JStr ''aaaa'')]"

definition ledger_text :: string where
  "ledger_text =
     ''{'' @ [CHR 0x0A] @ ''  '' @ [CHR 0x22] @ ''manifests/app.json'' @ [CHR 0x22] @ '': ''
     @ [CHR 0x22] @ ''aaaa'' @ [CHR 0x22] @ [CHR 0x0A] @ ''}''"

text \<open>
  The event of a comment \<open>body\<close> written by \<open>login\<close> on change request 7, and an
  environment with that event in which every call succeeds. The change request touches one
  manifest, \<open>manifests/app.json\<close>, whose content is now the single character \<open>{\<close>
  (no JSON document) and hashes to \<open>bbbb\<close>.
\<close>

definition comment_event :: "string \<Rightarrow> string \<Rightarrow> json" where
  "comment_event body login =
     JObj [(''issue'', JObj [(''number'', JInt 7),
                             (''pull_request'', JObj [(''url'', JStr ''pulls/7'')])]),
           (''comment'', JObj [(''body'', JStr body),
                               (''user'', JObj [(''login'', JStr login)])])]"

definition comment_world :: "string \<Rightarrow> string \<Rightarrow> world" where
  "comment_world body login =
     \<lparr>environ = map_of [(''GITHUB_TOKEN'', ''t''), (''GITHUB_REPOSITORY'', ''QuietOS-dev/Store''),
                        (''GITHUB_EVENT_PATH'', ''/event.json'')],
      event_file = (\<lambda>p. if p = ''/event.json'' then Some (Inr (comment_event body login)) else None),
      pr_files = [\<lparr>filename = ''manifests/app.json'', raw_url = None\<rparr>],
      head_ref = ''patch-1'',
      fault = (\<lambda>t c. None),
      requests_get = (\<lambda>u. Inl ''unreachable''),
      get_contents = (\<lambda>p r. if p = ''manifests/app.json'' then Inr ''{'' else Inl ''404''),
      sha256 = (\<lambda>b. ''bbbb''),
      json_loads = (\<lambda>t. if t = ledger_text then Inr ledger_json else Inl ''Expecting value''),
      json_dumps = (\<lambda>j. if j = ledger_json then ledger_text else ''{}''),
      image_open = (\<lambda>b. Inl ''cannot identify image file''),
      repr = (\<lambda>j. ''None'')\<rparr>"

text \<open>
  A change request under review: the validator has published the ledger
  \<open>manifests/app.json \<mapsto> aaaa\<close> and announced the success.
\<close>

definition reviewed_cr :: state where
  "reviewed_cr =
     \<lparr>labels = [''Under review''],
      comments = [\<lparr>c_id = 0, c_body = Some (MARKER_START @ [CHR 0x0A] @ ledger_text
                                             @ [CHR 0x0A] @ MARKER_END)\<rparr>,
                  \<lparr>c_id = 1, c_body = Some success_message\<rparr>],
      next_id = 2, log = [], validation_success = True\<rparr>"

text \<open>
  A change request that edits \<open>manifests/app.json\<close> and adds \<open>icons/new.png\<close>, in an
  environment where every call succeeds. \<open>json.loads\<close> of the manifest bytes gives \<open>m\<close>.
  The stable branch has icons of several kinds, the network has an artifact, an empty
  answer and a missing page, and a digest is written \<open>sha256(...)\<close>.
\<close>

definition big_icon :: string where
  "big_icon = replicate 4097 (CHR ''x'')"

definition pr_event :: json where
  "pr_event = JObj [(''action'', JStr ''synchronize''), (''pull_request'', JObj [(''number'', JInt 7)])]"

definition store_world :: "json \<Rightarrow> world" where
  "store_world m =
     \<lparr>environ = map_of [(''GITHUB_TOKEN'', ''t''), (''GITHUB_REPOSITORY'', ''QuietOS-dev/Store''),
                        (''GITHUB_EVENT_PATH'', ''/event.json'')],
      event_file = (\<lambda>p. if p = ''/event.json'' then Some (Inr pr_event) else None),
      pr_files = [\<lparr>filename = ''manifests/app.json'', raw_url = Some ''https://raw/manifests/app.json''\<rparr>,
                  \<lparr>filename = ''icons/new.png'', raw_url = Some ''https://raw/icons/new.png''\<rparr>],
      head_ref = ''patch-1'',
      fault = (\<lambda>t c. None),
      requests_get = (\<lambda>u.
         if u = ''https://raw/manifests/app.json''
           then Inr \<lparr>status_code = 200, content = ''app.json bytes'', error_text = []\<rparr>
         else if u = ''https://raw/icons/new.png''
           then Inr \<lparr>status_code = 200, content = ''png 32x32'', error_text = []\<rparr>
         else if u = ''https://example.org/app.bin''
           then Inr \<lparr>status_code = 200, content = ''app.bin bytes'', error_text = []\<rparr>
         else if u = ''https://example.org/empty''
           then Inr \<lparr>status_code = 204, content = [], error_text = []\<rparr>
         else if u = ''https://example.org/gone''
           then Inr \<lparr>status_code = 404, content = ''Not Found'', error_text = ''404 Client Error''\<rparr>
         else Inl ''connection refused''),
      get_contents = (\<lambda>p r.
         if r \<noteq> ''main'' then Inl ''404''
         else if p = ''icons/app.png'' then Inr ''png 32x32''
         else if p = ''icons/new.png'' then Inr ''png 33x32''
         else if p = ''icons/wide.png'' then Inr ''png 33x32''
         else if p = ''icons/jpg.png'' then Inr ''jpeg 32x32''
         else if p = ''icons/junk.png'' then Inr ''junk''
         else if p = ''icons/big.png'' then Inr big_icon
         else Inl ''404''),
      sha256 = (\<lambda>b. ''sha256('' @ b @ '')''),
      json_loads = (\<lambda>t. if t = ''app.json bytes'' then Inr m else Inl ''Expecting value''),
      json_dumps = (\<lambda>j. ''{}''),
      image_open = (\<lambda>b.
         if b = ''png 32x32'' then Inr \<lparr>format = ''PNG'', width = 32, height = 32\<rparr>
         else if b = ''png 33x32'' then Inr \<lparr>format = ''PNG'', width = 33, height = 32\<rparr>
         else if b = ''jpeg 32x32'' then Inr \<lparr>format = ''JPEG'', width = 32, height = 32\<rparr>
         else Inl ''cannot identify image file''),
      repr = (\<lambda>j. ''None'')\<rparr>"

text \<open>A manifest without \<open>author\<close> and with an empty \<open>url\<close>.\<close>

definition app_manifest :: json where
  "app_manifest =
     JObj [(''package'', JStr ''app''), (''name'', JStr ''App''), (''version'', JStr ''1.0''),
           (''category'', JStr ''tools''), (''description'', JStr ''An app''), (''url'', JStr []),
           (''sha256'', JStr ''sha256(app.bin bytes)''), (''api_level'', JInt 1),
           (''permissions'', JArr []), (''min_os_version'', JStr ''1.0'')]"

text \<open>The environment of \<open>empty_pr_world\<close> with one manifest that cannot be read.\<close>

definition unreadable_world :: world where
  "unreadable_world = empty_pr_world\<lparr>pr_files := [\<lparr>filename = ''manifests/app.json'', raw_url = None\<rparr>]\<rparr>"

text \<open>
  A manifest whose path contains the end delimiter of the ledger, the ledger with its digest,
  and the text \<open>json.dumps(..., ensure_ascii=False, indent=2)\<close> prints for that ledger. In
  \<open>collision_world\<close> the \<open>json\<close> module prints and reads that one ledger; any other text,
  such as a part of it, is no JSON document.
\<close>

definition collision_path :: string where
  "collision_path = ''manifests/END MANIFEST_HASHES -->.json''"

definition collision_ledger :: json where
  "collision_ledger = JObj [(collision_path, JStr ''aaaa'')]"

definition collision_text :: string where
  "collision_text =
     ''{'' @ [CHR 0x0A] @ ''  '' @ [CHR 0x22] @ collision_path @ [CHR 0x22] @ '': ''
     @ [CHR 0x22] @ ''aaaa'' @ [CHR 0x22] @ [CHR 0x0A] @ ''}''"

definition collision_world :: world where
  "collision_world =
     empty_pr_world
       \<lparr>json_loads := (\<lambda>t. if t = collision_text then Inr collision_ledger
                            else Inl ''Unterminated string''),
        json_dumps := (\<lambda>j. if j = collision_ledger then collision_text else ''{}'')\<rparr>"

section \<open>Laws of sequencing\<close>

lemma bind_ret [simp]: "bind (ret a) f = f a"
  by (rule ext) (simp add: bind_def ret_def)

lemma bind_raise [simp]: "bind (raise e) f = raise e"
  by (rule ext) (simp add: bind_def raise_def)

lemma bind_Done [simp]: "bind Done f = Done"
  by (rule ext) (simp add: bind_def)

lemma seq_ret [simp]: "seq (ret a) k = k"
  by (simp add: seq_def)

lemma seq_raise [simp]: "seq (raise e) k = raise e"
  by (simp add: seq_def)

lemma seq_Done [simp]: "seq Done k = Done"
  by (simp add: seq_def)

lemma bind_assoc: "bind (bind m f) g = bind m (\<lambda>a. bind (f a) g)"
  by (rule ext) (simp add: bind_def split: res.splits)

lemma seq_assoc: "seq (seq m n) k = seq m (seq n k)"
  by (simp add: seq_def bind_assoc)

lemma try_ret [simp]: "try_except (ret a) h = ret a"
  by (rule ext) (simp add: try_except_def ret_def)

section \<open>Which calls a run can make\<close>

lemma tracked_refl [simp]: "tracked P s s"
  by (simp add: tracked_def)

lemma tracked_trans: "tracked P s t \<Longrightarrow> tracked P t u \<Longrightarrow> tracked P s u"
  unfolding tracked_def
  apply (elim conjE exE)
  apply (intro conjI)
    apply (rule_tac x="cs @ csa" in exI)
    apply simp
   apply blast
  apply blast
  done

lemma tracked_mono: "(\<And>c. P c \<Longrightarrow> Q c) \<Longrightarrow> tracked P s t \<Longrightarrow> tracked Q s t"
  unfolding tracked_def
  by (metis (mono_tags, lifting) list.pred_mono_strong)

lemma tracked_flag [simp]: "tracked P s (t\<lparr>validation_success := b\<rparr>) = tracked P s t"
  by (simp add: tracked_def)

lemma tracked_flag' [simp]: "tracked P (s\<lparr>validation_success := b\<rparr>) t = tracked P s t"
  by (simp add: tracked_def)

lemma calls_only_ret [intro!, simp]: "calls_only P (ret a)"
  by (simp add: calls_only_def ret_def)

lemma calls_only_raise [intro!, simp]: "calls_only P (raise e)"
  by (simp add: calls_only_def raise_def)

lemma calls_only_Done [intro!, simp]: "calls_only P Done"
  by (simp add: calls_only_def)

lemma calls_only_bind [intro!]:
  "calls_only P m \<Longrightarrow> (\<And>a. calls_only P (f a)) \<Longrightarrow> calls_only P (bind m f)"
  unfolding calls_only_def bind_def
  by (auto intro: tracked_trans split: res.splits)

lemma calls_only_seq [intro!]:
  "calls_only P m \<Longrightarrow> calls_only P k \<Longrightarrow> calls_only P (seq m k)"
  by (simp add: seq_def calls_only_bind)

lemma calls_only_try [intro!]:
  "calls_only P m \<Longrightarrow> (\<And>e. calls_only P (h e)) \<Longrightarrow> calls_only P (try_except m h)"
  unfolding calls_only_def try_except_def
  by (auto intro: tracked_trans split: res.splits)

lemma calls_only_if [intro!]:
  "(c \<Longrightarrow> calls_only P a) \<Longrightarrow> (\<not> c \<Longrightarrow> calls_only P b) \<Longrightarrow> calls_only P (if c then a else b)"
  by simp

lemma calls_only_lift [intro!, simp]: "calls_only P (lift r)"
  by (cases r) (simp_all add: lift_def)

lemma calls_only_api [intro]: "P c \<Longrightarrow> calls_only P (api w c)"
  by (auto simp: calls_only_def api_def tracked_def Let_def split: option.splits)

lemma calls_only_print [intro]: "P (Print m) \<Longrightarrow> calls_only P (print m)"
  by (auto simp: calls_only_def print_def tracked_def)

lemma calls_only_read [intro!, simp]: "calls_only P (\<lambda>s. Next (f s) s)"
  by (simp add: calls_only_def)

lemma calls_only_mono: "(\<And>c. P c \<Longrightarrow> Q c) \<Longrightarrow> calls_only P m \<Longrightarrow> calls_only Q m"
  unfolding calls_only_def by (blast intro: tracked_mono)

lemma calls_only_get_files [intro]: "P GetFiles \<Longrightarrow> calls_only P (get_files w)"
  by (auto simp: get_files_def)

lemma calls_only_get_labels [intro]: "P GetLabels \<Longrightarrow> calls_only P (get_labels w)"
  by (auto simp: get_labels_def)

lemma calls_only_get_comments [intro]: "P GetComments \<Longrightarrow> calls_only P (get_comments w)"
  by (auto simp: get_comments_def)

lemma calls_only_remove_from_labels [intro]:
  "P (RemoveFromLabels l) \<Longrightarrow> calls_only P (remove_from_labels w l)"
  by (auto simp: calls_only_def remove_from_labels_def seq_def bind_def api_def tracked_def Let_def
      split: option.splits)

lemma calls_only_add_to_labels [intro]:
  "P (AddToLabels l) \<Longrightarrow> calls_only P (add_to_labels w l)"
  by (auto simp: calls_only_def add_to_labels_def seq_def bind_def api_def tracked_def Let_def
      split: option.splits)

lemma calls_only_create_comment [intro]:
  "P (CreateComment b) \<Longrightarrow> calls_only P (create_comment w b)"
  by (auto simp: calls_only_def create_comment_def seq_def bind_def api_def tracked_def Let_def
      split: option.splits)

lemma calls_only_delete_comment [intro]:
  "P (DeleteComment (c_id c)) \<Longrightarrow> calls_only P (delete_comment w c)"
  by (auto simp: calls_only_def delete_comment_def seq_def bind_def api_def tracked_def Let_def
      split: option.splits)

lemma calls_only_delete_marker_comments [intro]:
  "(\<And>i. P (DeleteComment i)) \<Longrightarrow> calls_only P (delete_marker_comments w cs)"
  by (induction cs) auto

lemma calls_only_py_in [intro!, simp]: "calls_only P (py_in k x)"
  by (cases x) simp_all

lemma calls_only_py_getitem [intro!, simp]: "calls_only P (py_getitem x k)"
  by (cases x) (simp_all split: option.splits)

lemma calls_only_py_get [intro!, simp]: "calls_only P (py_get x k d)"
  by (cases x) simp_all

lemma calls_only_py_strip [intro!, simp]: "calls_only P (py_strip x)"
  by (cases x) simp_all

lemma calls_only_load_event [intro!, simp]: "calls_only P (load_event w)"
  by (simp add: load_event_def split: option.splits)

lemma calls_only_get_pr_number_issue [intro!, simp]: "calls_only P (get_pr_number_issue e)"
  unfolding get_pr_number_issue_def by (intro calls_only_bind calls_only_if) simp_all

lemma calls_only_get_pr_number [intro!, simp]: "calls_only P (get_pr_number e)"
  unfolding get_pr_number_def by (intro calls_only_bind calls_only_if) simp_all

lemma calls_only_add_error [intro!, simp]: "calls_only P (add_error e a)"
  by (simp add: calls_only_def add_error_def)

lemma calls_only_check_required_fields [intro!, simp]:
  "calls_only P (check_required_fields fname m fs a)"
  by (induction fs arbitrary: a) auto

lemma calls_only_validate_icon [intro]:
  "P GetFiles \<Longrightarrow> calls_only P (validate_icon_for_package w pkg)"
  unfolding validate_icon_for_package_def by auto

lemma calls_only_check_icon [intro]:
  "P GetFiles \<Longrightarrow> calls_only P (check_icon w fname pkg a)"
  unfolding check_icon_def by (auto split: prod.splits)

lemma calls_only_check_url [intro!, simp]:
  "calls_only P (check_url w fname url sha a)"
  unfolding check_url_def by (auto split: sum.splits simp: Let_def)

lemma calls_only_validate_file [intro]:
  "P GetFiles \<Longrightarrow> calls_only P (validate_file w mf a)"
  unfolding validate_file_def by (auto split: sum.splits simp: Let_def)

lemma calls_only_validate_files [intro]:
  "P GetFiles \<Longrightarrow> calls_only P (validate_files w mfs a)"
  by (induction mfs arbitrary: a) auto

lemma validator_call_simps [simp]:
  "validator_call GetRepo" "validator_call (GetPull n)" "validator_call (GetIssue n)"
  "validator_call GetFiles" "validator_call GetLabels" "validator_call GetComments"
  "validator_call (DeleteComment i)" "validator_call (Print m)"
  "validator_call (RemoveFromLabels l) = (l = ''Under review'' \<or> l = ''Invalid manifest'')"
  "validator_call (AddToLabels l) = (l = ''Invalid manifest'' \<or> l = ''Under review'')"
  by (simp_all add: validator_call_def)

lemma validator_call_comments [simp]:
  "validator_call (CreateComment ''No manifests found in this PR.'')"
  "validator_call (CreateComment (failure_report errs))"
  "validator_call (CreateComment (marker_body w d))"
  "validator_call (CreateComment (''Manifests validated, but failed to store hash marker: '' @ e @ rest))"
  "validator_call (CreateComment success_message)"
  by (simp_all add: validator_call_def failure_report_def marker_body_def)

lemma calls_only_post_marker [intro!, simp]:
  "calls_only validator_call (post_marker_comment w d)"
  unfolding post_marker_comment_def by auto

lemma calls_only_on_failure [intro!, simp]: "calls_only validator_call (on_failure w labs a)"
  unfolding on_failure_def by auto

lemma calls_only_Done_flag [intro!, simp]:
  "calls_only P (\<lambda>s. Done (s\<lparr>validation_success := b\<rparr>))"
  by (simp add: calls_only_def)

lemma calls_only_on_success [intro!, simp]: "calls_only validator_call (on_success w labs a)"
  unfolding on_success_def
  by (intro calls_only_seq calls_only_if calls_only_try calls_only_create_comment
      calls_only_remove_from_labels calls_only_add_to_labels calls_only_ret
      calls_only_post_marker calls_only_Done_flag)
    (simp_all add: validator_call_def)

lemma calls_only_validate_changed_files [intro!, simp]:
  "calls_only validator_call (validate_changed_files w)"
  unfolding validate_changed_files_def Let_def
  apply (intro calls_only_bind calls_only_if calls_only_seq calls_only_get_files
      calls_only_create_comment calls_only_validate_files calls_only_get_labels
      calls_only_Done_flag)
       apply simp_all
  using calls_only_on_failure calls_only_on_success
  apply (simp add: calls_only_def)
  done

lemma calls_only_main_validate [intro!, simp]:
  "calls_only validator_call (main_validate_manifest w)"
  unfolding main_validate_manifest_def
  by (intro calls_only_bind calls_only_if calls_only_seq calls_only_api calls_only_print) simp_all

lemma calls_only_validate_script [intro!, simp]:
  "calls_only validator_call (validate_manifest_script w)"
  unfolding calls_only_def validate_manifest_script_def
proof
  fix s
  have "tracked validator_call (s\<lparr>validation_success := True\<rparr>)
          (final (main_validate_manifest w (s\<lparr>validation_success := True\<rparr>)))"
    using calls_only_main_validate [of w] unfolding calls_only_def by blast
  then show "tracked validator_call s
          (final (main_validate_manifest w (s\<lparr>validation_success := True\<rparr>)))"
    by simp
qed

section \<open>The dispatcher after the comment is extracted\<close>

lemma str_in_append_left: "str_in (xs @ ys) s \<Longrightarrow> str_in xs s"
  by (induction s) (auto dest: append_prefixD)

lemma mention_of_allow: "str_in ''@bot allow'' b \<Longrightarrow> str_in ''@bot'' b"
  using str_in_append_left [of "''@bot''" "'' allow''" b] by simp

lemma stmt_approve_returns: "seq (stmt_approve w) k = stmt_approve w"
  by (simp add: stmt_approve_def seq_assoc)

lemma dispatch_live:
  "dispatch w event comment_body comment_user =
     seq (stmt_no_mention w event comment_body)
    (seq (stmt_check w comment_body comment_user)
    (seq (stmt_allow w comment_body comment_user)
         (stmt_approve w)))"
  by (simp add: dispatch_def stmt_approve_returns)

lemma calls_onlyD:
  assumes "calls_only P m"
  shows "\<exists>cs. log (final (m s)) = log s @ cs \<and> list_all P cs"
proof -
  have "tracked P s (final (m s))"
    using assms unfolding calls_only_def by blast
  then show ?thesis
    unfolding tracked_def by blast
qed

lemma calls_only_new_calls: "calls_only P m \<Longrightarrow> list_all P (new_calls s (m s))"
  using calls_onlyD [of P m s] by (auto simp: new_calls_def)

lemma calls_only_never: "calls_only P m \<Longrightarrow> \<not> P c \<Longrightarrow> c \<notin> set (new_calls s (m s))"
  using calls_only_new_calls [of P m s] by (auto simp: list_all_iff)

lemma calls_only_keeps_label:
  assumes "calls_only P m" and "\<not> P (RemoveFromLabels l)" and "l \<in> set (labels s)"
  shows "l \<in> set (labels (final (m s)))"
proof -
  have "tracked P s (final (m s))"
    using assms(1) unfolding calls_only_def by blast
  then show ?thesis
    using assms(2,3) unfolding tracked_def by blast
qed

lemma try_remove_from_labels:
  "try_except (remove_from_labels w l) (\<lambda>e. ret ()) s =
     Next () (s\<lparr>log := log s @ [RemoveFromLabels l],
               labels := (if fault w (length (log s)) (RemoveFromLabels l) = None
                          then removeAll l (labels s) else labels s)\<rparr>)"
  by (simp add: try_except_def remove_from_labels_def seq_def bind_def api_def ret_def Let_def
      split: option.splits)

lemma try_add_to_labels:
  "try_except (add_to_labels w l) (\<lambda>e. ret ()) s =
     Next () (s\<lparr>log := log s @ [AddToLabels l],
               labels := (if fault w (length (log s)) (AddToLabels l) = None
                          then List.insert l (labels s) else labels s)\<rparr>)"
  by (simp add: try_except_def add_to_labels_def seq_def bind_def api_def ret_def Let_def
      split: option.splits)

lemma seq_apply:
  "seq m k s = (case m s of Next a s' \<Rightarrow> k s' | Done s' \<Rightarrow> Done s' | Raise e s' \<Rightarrow> Raise e s')"
  by (simp add: seq_def bind_def)

lemma guarded_remove:
  "(if c then try_except (remove_from_labels w l) (\<lambda>e. ret ()) else ret ()) s =
     Next () (if c then after_remove w l s else s)"
  by (simp add: try_remove_from_labels ret_def after_remove_def)

lemma guarded_add:
  "(if c then try_except (add_to_labels w l) (\<lambda>e. ret ()) else ret ()) s =
     Next () (if c then after_add w l s else s)"
  by (simp add: try_add_to_labels ret_def after_add_def)

lemma on_failure_label_calls:
  "filter is_label_call (new_calls s (on_failure w labs a s)) =
     (if ''Under review'' \<in> set labs then [RemoveFromLabels ''Under review''] else [])
     @ (if ''Invalid manifest'' \<notin> set labs then [AddToLabels ''Invalid manifest''] else [])"
proof -
  define Z :: "unit prog" where "Z = seq (create_comment w (failure_report (errors a)))
    (bind (get_comments w) (\<lambda>cs. seq (delete_marker_comments w cs) Done))"
  define L1 where "L1 = (if ''Under review'' \<in> set labs then [RemoveFromLabels ''Under review''] else [])"
  define L2 where "L2 = (if ''Invalid manifest'' \<notin> set labs then [AddToLabels ''Invalid manifest''] else [])"
  define s1 where "s1 = (if ''Under review'' \<in> set labs then after_remove w ''Under review'' s else s)"
  define s2 where "s2 = (if ''Invalid manifest'' \<notin> set labs then after_add w ''Invalid manifest'' s1 else s1)"
  have Z: "calls_only (\<lambda>c. \<not> is_label_call c) Z"
    unfolding Z_def
    by (intro calls_only_seq calls_only_bind calls_only_create_comment calls_only_get_comments
        calls_only_delete_marker_comments calls_only_Done) (simp_all add: is_label_call_def)
  have run: "on_failure w labs a s = Z s2"
    unfolding on_failure_def Z_def [symmetric]
    apply (subst seq_apply)
    apply (subst guarded_remove)
    apply (subst res.case)
    apply (subst seq_apply)
    apply (subst guarded_add)
    apply (simp only: res.case s1_def s2_def)
    done
  have logs: "log s2 = log s @ L1 @ L2"
    by (simp add: s1_def s2_def L1_def L2_def after_remove_def after_add_def)
  from calls_onlyD [OF Z, of s2] obtain cs where
    cs: "log (final (Z s2)) = log s2 @ cs" "list_all (\<lambda>c. \<not> is_label_call c) cs"
    by blast
  have "filter is_label_call cs = []"
    using cs(2) by (simp add: list_all_iff)
  moreover have "filter is_label_call L1 = L1" "filter is_label_call L2 = L2"
    by (simp_all add: L1_def L2_def is_label_call_def)
  ultimately show ?thesis
    using run cs(1) logs by (simp add: new_calls_def L1_def [symmetric] L2_def [symmetric])
qed

lemma dispatcher_call_validator [simp]: "validator_call c \<Longrightarrow> dispatcher_call w c"
  by (simp add: dispatcher_call_def)

lemma dispatcher_call_simps [simp]:
  "dispatcher_call w (RemoveFromLabels ''Rejected'')"
  "dispatcher_call w (AddToLabels ''Approved'')"
  "dispatcher_call w (CreateComment (glyph_rerun @ rest))"
  "dispatcher_call w (CreateComment (glyph_ok @ '' Validation completed.''))"
  "dispatcher_call w (CreateComment (glyph_warn @ rest))"
  "dispatcher_call w (CreateComment (only_moderators_msg w))"
  "dispatcher_call w (CreateComment (glyph_ok @ '' PR has been approved by moderator.''))"
  by (simp_all add: dispatcher_call_def)

lemma calls_only_run_validate [intro!, simp]:
  "calls_only (dispatcher_call w) (run_validate_manifest w)"
  unfolding calls_only_def
proof
  fix s
  have "tracked validator_call s (final (validate_manifest_script w s))"
    using calls_only_validate_script [of w] unfolding calls_only_def by blast
  then have "tracked (dispatcher_call w) s (final (validate_manifest_script w s))"
    by (rule tracked_mono [rotated]) simp
  then show "tracked (dispatcher_call w) s (final (run_validate_manifest w s))"
    by (cases "validate_manifest_script w s") (simp_all add: run_validate_manifest_def)
qed

lemma calls_only_remove_each [intro]:
  "(\<And>l. l \<in> set labs \<Longrightarrow> P (RemoveFromLabels l)) \<Longrightarrow> calls_only P (remove_each w existing labs)"
  by (induction labs) auto

lemma calls_only_remove_labels [intro]:
  "P GetLabels \<Longrightarrow> (\<And>l. l \<in> set labs \<Longrightarrow> P (RemoveFromLabels l))
   \<Longrightarrow> calls_only P (remove_labels w labs)"
  unfolding remove_labels_def by auto

lemma calls_only_stmt_no_mention [intro!, simp]:
  "calls_only (dispatcher_call w) (stmt_no_mention w event b)"
  unfolding stmt_no_mention_def by auto

lemma calls_only_stmt_check [intro!, simp]:
  "calls_only (dispatcher_call w) (stmt_check w b u)"
  unfolding stmt_check_def
  by (intro calls_only_if calls_only_seq calls_only_bind calls_only_create_comment
      calls_only_run_validate calls_only_Done calls_only_ret) simp_all

lemma calls_only_stmt_allow [intro!, simp]:
  "calls_only (dispatcher_call w) (stmt_allow w b u)"
  unfolding stmt_allow_def
  by (intro calls_only_if calls_only_seq calls_only_create_comment calls_only_Done calls_only_ret)
    simp_all

lemma calls_only_stmt_approve [intro!, simp]:
  "calls_only (dispatcher_call w) (stmt_approve w)"
  unfolding stmt_approve_def
  by (intro calls_only_seq calls_only_try calls_only_remove_labels calls_only_add_to_labels
      calls_only_create_comment calls_only_Done calls_only_ret) auto

lemma calls_only_extract_comment [intro!, simp]: "calls_only P (extract_comment w event)"
  unfolding extract_comment_def
  by (intro calls_only_bind calls_only_if) simp_all

lemma calls_only_dispatch [intro!, simp]:
  "calls_only (dispatcher_call w) (dispatch w event b u)"
  unfolding dispatch_live by (intro calls_only_seq) simp_all

lemma calls_only_main_bot [intro!, simp]:
  "calls_only (dispatcher_call w) (main_bot_commands w)"
  unfolding main_bot_commands_def
  by (intro calls_only_bind calls_only_if calls_only_seq calls_only_api calls_only_print
      calls_only_Done calls_only_load_event calls_only_get_pr_number calls_only_extract_comment)
    (auto split: prod.splits)

lemma never_rejected: "\<not> dispatcher_call w (AddToLabels ''Rejected'')"
  by (simp add: dispatcher_call_def)

lemma never_unknown: "\<not> dispatcher_call w (CreateComment unknown_command_msg)"
  by (simp add: dispatcher_call_def validator_call_def unknown_command_msg_def glyph_info_def
      glyph_ok_def glyph_warn_def glyph_rerun_def glyph_no_def only_moderators_msg_def
      success_message_def check_mark_def MARKER_START_def)

lemma never_rejected_msg:
  "\<not> dispatcher_call w (CreateComment (glyph_no @ '' PR has been rejected by moderator.''))"
  by (simp add: dispatcher_call_def validator_call_def unknown_command_msg_def glyph_info_def
      glyph_ok_def glyph_warn_def glyph_rerun_def glyph_no_def only_moderators_msg_def
      success_message_def check_mark_def MARKER_START_def)

lemma stmt_approve_not_Next: "stmt_approve w s \<noteq> Next u s'"
  by (simp add: stmt_approve_def seq_def bind_def split: res.splits)

lemma dispatch_allow:
  assumes "str_in ''@bot allow'' comment_body" "\<not> str_in ''@bot check'' comment_body"
    "\<not> not_moderator w comment_user"
  shows "dispatch w event comment_body comment_user = stmt_approve w"
  using assms mention_of_allow [OF assms(1)]
  by (simp add: dispatch_live stmt_no_mention_def stmt_check_def stmt_allow_def)

lemma stmt_approve_calls:
  "calls_only (\<lambda>c. c \<noteq> GetComments \<and> c \<noteq> GetFiles) (stmt_approve w)"
  unfolding stmt_approve_def
  by (intro calls_only_seq calls_only_try calls_only_remove_labels calls_only_add_to_labels
      calls_only_create_comment calls_only_Done calls_only_ret) auto

lemma stmt_approve_no_fault:
  assumes "\<forall>t c. fault w t c = None"
  shows "\<exists>s'. stmt_approve w s = Done s'
     \<and> labels s' = List.insert ''Approved'' (removeAll ''Rejected''
                      (removeAll ''Under review'' (removeAll ''Invalid manifest'' (labels s))))"
  using assms
  by (simp add: stmt_approve_def remove_labels_def get_labels_def remove_from_labels_def
      add_to_labels_def create_comment_def api_def seq_def bind_def ret_def try_except_def Let_def)

section \<open>The file loop of the validator\<close>

lemma bind_Next_iff:
  "bind m f s = Next b s'' \<longleftrightarrow> (\<exists>a s'. m s = Next a s' \<and> f a s' = Next b s'')"
  by (simp add: bind_def split: res.splits)

lemma grows_refl [simp]: "grows a s a s"
  by (simp add: grows_def)

lemma grows_trans: "grows a s a' s' \<Longrightarrow> grows a' s' a'' s'' \<Longrightarrow> grows a s a'' s''"
  unfolding grows_def
  by (metis prefix_order.dual_order.trans prefix_order.eq_iff)

lemma grows_add_error: "add_error e a s = Next a' s' \<Longrightarrow> grows a s a' s'"
  by (auto simp: add_error_def grows_def)

lemma add_error_hashes: "add_error e a s = Next a' s' \<Longrightarrow> current_hashes a' = current_hashes a"
  by (auto simp: add_error_def)

lemma check_required_fields_obj:
  "check_required_fields fname (JObj kvs) fs a s =
     Next (a\<lparr>errors := errors a @ map (missing_field_line fname) (filter (\<lambda>f. map_of kvs f = None) fs)\<rparr>)
          (s\<lparr>validation_success := validation_success s \<and> filter (\<lambda>f. map_of kvs f = None) fs = []\<rparr>)"
proof (induction fs arbitrary: a s)
  case Nil
  then show ?case by (simp add: ret_def)
next
  case (Cons f fs)
  show ?case
  proof (cases "map_of kvs f")
    case None
    then show ?thesis
      by (simp add: Cons.IH bind_def ret_def add_error_def missing_field_line_def)
  next
    case (Some v)
    then show ?thesis
      by (simp add: Cons.IH bind_def ret_def)
  qed
qed

lemma grows_check_required_fields:
  "check_required_fields fname m fs a s = Next a' s' \<Longrightarrow> grows a s a' s'"
proof (induction fs arbitrary: a s)
  case Nil
  then show ?case by (simp add: ret_def)
next
  case (Cons f fs)
  from Cons.prems obtain p s1 a1 s2 where
    p: "py_in f m s = Next p s1"
    and a1: "(if \<not> p then add_error (cross_mark @ '' '' @ fname @ '': missing required field ''
                @ [CHR 0x27] @ f @ [CHR 0x27]) a else ret a) s1 = Next a1 s2"
    and rest: "check_required_fields fname m fs a1 s2 = Next a' s'"
    by (auto simp: bind_Next_iff)
  have "s1 = s" using p by (cases m) (auto simp: ret_def raise_def)
  then have "grows a s a1 s2"
    using a1 by (auto simp: ret_def dest: grows_add_error split: if_splits)
  then show ?case
    using Cons.IH [OF rest] by (blast intro: grows_trans)
qed

lemma check_required_fields_hashes:
  "check_required_fields fname m fs a s = Next a' s' \<Longrightarrow> current_hashes a' = current_hashes a"
proof (induction fs arbitrary: a s)
  case Nil
  then show ?case by (simp add: ret_def)
next
  case (Cons f fs)
  from Cons.prems obtain p s1 a1 s2 where
    a1: "(if \<not> p then add_error (cross_mark @ '' '' @ fname @ '': missing required field ''
                @ [CHR 0x27] @ f @ [CHR 0x27]) a else ret a) s1 = Next a1 s2"
    and rest: "check_required_fields fname m fs a1 s2 = Next a' s'"
    by (auto simp: bind_Next_iff)
  have "current_hashes a1 = current_hashes a"
    using a1 by (auto simp: ret_def dest: add_error_hashes split: if_splits)
  then show ?case
    using Cons.IH [OF rest] by simp
qed

lemma validate_icon_flag:
  "validate_icon_for_package w pkg s = Next v s' \<Longrightarrow> validation_success s' = validation_success s"
  by (auto simp: validate_icon_for_package_def get_files_def api_def seq_def bind_def ret_def Let_def
      split: option.splits)

lemma grows_check_icon: "check_icon w fname pkg a s = Next a' s' \<Longrightarrow> grows a s a' s'"
  by (auto simp: check_icon_def bind_Next_iff ret_def grows_def add_error_def
      dest!: validate_icon_flag split: if_splits)

lemma check_icon_hashes:
  "check_icon w fname pkg a s = Next a' s' \<Longrightarrow> current_hashes a' = current_hashes a"
  by (auto simp: check_icon_def bind_Next_iff ret_def add_error_def split: if_splits)

lemma grows_check_url: "check_url w fname url sha a s = Next a' s' \<Longrightarrow> grows a s a' s'"
  by (auto simp: check_url_def ret_def Let_def dest: grows_add_error split: if_splits sum.splits)

lemma check_url_hashes:
  "check_url w fname url sha a s = Next a' s' \<Longrightarrow> current_hashes a' = current_hashes a"
  by (auto simp: check_url_def ret_def Let_def dest: add_error_hashes split: if_splits sum.splits)

lemma py_get_state: "py_get m k d s = Next v s' \<Longrightarrow> s' = s"
  by (cases m) (auto simp: ret_def raise_def)

lemma check_url_Next: "\<exists>a' s'. check_url w fname url sha a s = Next a' s'"
  by (auto simp: check_url_def add_error_def ret_def Let_def split: sum.splits)

lemma check_icon_Next:
  "fault w (length (log s)) GetFiles = None \<Longrightarrow> \<exists>a' s'. check_icon w fname pkg a s = Next a' s'"
  by (auto simp: check_icon_def validate_icon_for_package_def get_files_def api_def seq_def bind_def
      ret_def add_error_def Let_def split: prod.splits)

lemma validate_file_obj:
  assumes "read_manifest_file w mf = Inr b" and "json_loads w b = Inr (JObj kvs)"
  shows "validate_file w mf a s =
     bind (check_icon w (filename mf) (case map_of kvs ''package'' of None \<Rightarrow> JNull | Some v \<Rightarrow> v)
             (a\<lparr>current_hashes := AList.update (filename mf) (sha256_bytes w b) (current_hashes a),
                errors := errors a @ map (missing_field_line (filename mf))
                            (filter (\<lambda>f. map_of kvs f = None) REQUIRED_FIELDS)\<rparr>))
          (check_url w (filename mf) (case map_of kvs ''url'' of None \<Rightarrow> JNull | Some v \<Rightarrow> v)
             (case map_of kvs ''sha256'' of None \<Rightarrow> JNull | Some v \<Rightarrow> v))
       (s\<lparr>validation_success := validation_success s
             \<and> filter (\<lambda>f. map_of kvs f = None) REQUIRED_FIELDS = []\<rparr>)"
  using assms
  by (simp add: validate_file_def Let_def check_required_fields_obj bind_def ret_def)

lemma grows_validate_file:
  assumes "validate_file w mf a s = Next a' s'"
  shows "grows a s a' s'"
proof (cases "read_manifest_file w mf")
  case (Inl e)
  then show ?thesis
    using assms by (auto simp: validate_file_def Let_def dest: grows_add_error)
next
  case (Inr b)
  define a1 where "a1 = a\<lparr>current_hashes :=
      AList.update (filename mf) (sha256_bytes w b) (current_hashes a)\<rparr>"
  have a1: "grows a s a1 s"
    by (simp add: grows_def a1_def)
  show ?thesis
  proof (cases "json_loads w b")
    case (Inl e)
    then have "add_error (cross_mark @ '' '' @ filename mf @ '': invalid JSON ('' @ e @ '')'') a1 s
        = Next a' s'"
      using assms Inr by (simp add: validate_file_def Let_def a1_def)
    then show ?thesis
      using a1 by (blast intro: grows_trans dest: grows_add_error)
  next
    case json: (Inr m)
    from assms Inr json obtain a2 s2 pkg s3 url s4 sha s5 a3 s6 where
      steps: "check_required_fields (filename mf) m REQUIRED_FIELDS a1 s = Next a2 s2"
        "py_get m ''package'' JNull s2 = Next pkg s3"
        "py_get m ''url'' JNull s3 = Next url s4"
        "py_get m ''sha256'' JNull s4 = Next sha s5"
        "check_icon w (filename mf) pkg a2 s5 = Next a3 s6"
        "check_url w (filename mf) url sha a3 s6 = Next a' s'"
      by (auto simp: validate_file_def Let_def a1_def bind_Next_iff)
    have "s5 = s2"
      using steps(2-4) by (auto dest: py_get_state)
    then show ?thesis
      using a1 grows_check_required_fields [OF steps(1)] grows_check_icon [OF steps(5)]
        grows_check_url [OF steps(6)]
      by (blast intro: grows_trans)
  qed
qed

lemma validate_file_hashes:
  assumes "validate_file w mf a s = Next a' s'"
  shows "current_hashes a' =
     (case read_manifest_file w mf of
        Inl e \<Rightarrow> current_hashes a
      | Inr b \<Rightarrow> AList.update (filename mf) (sha256_bytes w b) (current_hashes a))"
proof (cases "read_manifest_file w mf")
  case (Inl e)
  then show ?thesis
    using assms by (auto simp: validate_file_def Let_def dest: add_error_hashes)
next
  case (Inr b)
  define a1 where "a1 = a\<lparr>current_hashes :=
      AList.update (filename mf) (sha256_bytes w b) (current_hashes a)\<rparr>"
  show ?thesis
  proof (cases "json_loads w b")
    case (Inl e)
    then have "add_error (cross_mark @ '' '' @ filename mf @ '': invalid JSON ('' @ e @ '')'') a1 s
        = Next a' s'"
      using assms Inr by (simp add: validate_file_def Let_def a1_def)
    then show ?thesis
      using Inr by (auto simp: a1_def dest: add_error_hashes)
  next
    case json: (Inr m)
    from assms Inr json obtain a2 s2 pkg s5 url sha a3 s6 where
      steps: "check_required_fields (filename mf) m REQUIRED_FIELDS a1 s = Next a2 s2"
        "check_icon w (filename mf) pkg a2 s5 = Next a3 s6"
        "check_url w (filename mf) url sha a3 s6 = Next a' s'"
      by (auto simp: validate_file_def Let_def a1_def bind_Next_iff)
    show ?thesis
      using check_required_fields_hashes [OF steps(1)] check_icon_hashes [OF steps(2)]
        check_url_hashes [OF steps(3)] Inr
      by (simp add: a1_def)
  qed
qed

lemma grows_validate_files:
  "validate_files w mfs a s = Next a' s' \<Longrightarrow> grows a s a' s'"
proof (induction mfs arbitrary: a s)
  case Nil
  then show ?case by (simp add: ret_def)
next
  case (Cons mf mfs)
  then obtain a1 s1 where "validate_file w mf a s = Next a1 s1"
    and "validate_files w mfs a1 s1 = Next a' s'"
    by (auto simp: bind_Next_iff)
  then show ?case
    using Cons.IH grows_validate_file by (blast intro: grows_trans)
qed

lemma validate_files_hashes:
  "validate_files w mfs a s = Next a' s' \<Longrightarrow>
   current_hashes a' = recorded_hashes w mfs (current_hashes a)"
proof (induction mfs arbitrary: a s)
  case Nil
  then show ?case by (simp add: ret_def)
next
  case (Cons mf mfs)
  then obtain a1 s1 where one: "validate_file w mf a s = Next a1 s1"
    and rest: "validate_files w mfs a1 s1 = Next a' s'"
    by (auto simp: bind_Next_iff)
  show ?case
    using Cons.IH [OF rest] validate_file_hashes [OF one] by simp
qed

lemma grows_set: "grows a s a' s' \<Longrightarrow> set (errors a) \<subseteq> set (errors a')"
  by (auto simp: grows_def dest: set_mono_prefix)

lemma validate_file_names_missing:
  assumes "validate_file w mf a s = Next a' s'"
    and "read_manifest_file w mf = Inr b" and "json_loads w b = Inr (JObj kvs)"
    and "f \<in> set REQUIRED_FIELDS" and "map_of kvs f = None"
  shows "missing_field_line (filename mf) f \<in> set (errors a')"
proof -
  define a2 where "a2 = a\<lparr>current_hashes := AList.update (filename mf) (sha256_bytes w b) (current_hashes a),
                errors := errors a @ map (missing_field_line (filename mf))
                            (filter (\<lambda>f. map_of kvs f = None) REQUIRED_FIELDS)\<rparr>"
  from assms(1) obtain a3 s3 s2 pkg url sha where
    steps: "check_icon w (filename mf) pkg a2 s2 = Next a3 s3"
      "check_url w (filename mf) url sha a3 s3 = Next a' s'"
    unfolding validate_file_obj [OF assms(2,3)] a2_def [symmetric]
    by (auto simp: bind_Next_iff)
  have "missing_field_line (filename mf) f \<in> set (errors a2)"
    using assms(4,5) by (simp add: a2_def)
  then show ?thesis
    using grows_set [OF grows_check_icon [OF steps(1)]] grows_set [OF grows_check_url [OF steps(2)]]
    by blast
qed

lemma validate_files_names_missing:
  assumes "validate_files w mfs a s = Next a' s'" and "mf \<in> set mfs"
    and "read_manifest_file w mf = Inr b" and "json_loads w b = Inr (JObj kvs)"
    and "f \<in> set REQUIRED_FIELDS" and "map_of kvs f = None"
  shows "missing_field_line (filename mf) f \<in> set (errors a')"
  using assms(1,2)
proof (induction mfs arbitrary: a s)
  case Nil
  then show ?case by simp
next
  case (Cons m ms)
  then obtain a1 s1 where one: "validate_file w m a s = Next a1 s1"
    and rest: "validate_files w ms a1 s1 = Next a' s'"
    by (auto simp: bind_Next_iff)
  show ?case
  proof (cases "mf = m")
    case True
    then have "missing_field_line (filename mf) f \<in> set (errors a1)"
      using validate_file_names_missing [OF _ assms(3-6)] one by blast
    then show ?thesis
      using grows_set [OF grows_validate_files [OF rest]] by blast
  next
    case False
    then show ?thesis
      using Cons.IH [OF rest] Cons.prems(2) by simp
  qed
qed

lemma validate_file_Next:
  assumes "\<forall>t. fault w t GetFiles = None"
    and "\<forall>b j. read_manifest_file w mf = Inr b \<longrightarrow> json_loads w b = Inr j \<longrightarrow> (\<exists>kvs. j = JObj kvs)"
  shows "\<exists>a' s'. validate_file w mf a s = Next a' s'"
proof (cases "read_manifest_file w mf")
  case (Inl e)
  then show ?thesis by (simp add: validate_file_def Let_def add_error_def)
next
  case (Inr b)
  show ?thesis
  proof (cases "json_loads w b")
    case (Inl e)
    then show ?thesis using Inr by (simp add: validate_file_def Let_def add_error_def)
  next
    case json: (Inr j)
    then obtain kvs where j: "j = JObj kvs"
      using assms(2) Inr by blast
    define s2 where "s2 = s\<lparr>validation_success := validation_success s
             \<and> filter (\<lambda>f. map_of kvs f = None) REQUIRED_FIELDS = []\<rparr>"
    define a2 where "a2 = a\<lparr>current_hashes :=
                  AList.update (filename mf) (sha256_bytes w b) (current_hashes a),
                errors := errors a @ map (missing_field_line (filename mf))
                            (filter (\<lambda>f. map_of kvs f = None) REQUIRED_FIELDS)\<rparr>"
    have "fault w (length (log s2)) GetFiles = None"
      using assms(1) by simp
    then obtain a3 s3 where icon: "check_icon w (filename mf)
        (case map_of kvs ''package'' of None \<Rightarrow> JNull | Some v \<Rightarrow> v) a2 s2 = Next a3 s3"
      using check_icon_Next by blast
    obtain a' s' where "check_url w (filename mf)
        (case map_of kvs ''url'' of None \<Rightarrow> JNull | Some v \<Rightarrow> v)
        (case map_of kvs ''sha256'' of None \<Rightarrow> JNull | Some v \<Rightarrow> v) a3 s3 = Next a' s'"
      using check_url_Next by blast
    then show ?thesis
      unfolding validate_file_obj [OF Inr json [unfolded j]] a2_def [symmetric] s2_def [symmetric]
      using icon by (auto simp: bind_Next_iff)
  qed
qed

lemma validate_files_Next:
  assumes "\<forall>t. fault w t GetFiles = None"
    and "\<forall>mf \<in> set mfs. \<forall>b j. read_manifest_file w mf = Inr b \<longrightarrow> json_loads w b = Inr j
           \<longrightarrow> (\<exists>kvs. j = JObj kvs)"
  shows "\<exists>a' s'. validate_files w mfs a s = Next a' s'"
  using assms(2)
proof (induction mfs arbitrary: a s)
  case Nil
  then show ?case by (simp add: ret_def)
next
  case (Cons m ms)
  obtain a1 s1 where "validate_file w m a s = Next a1 s1"
    using validate_file_Next [OF assms(1), of m a s] Cons.prems by auto
  moreover obtain a' s' where "validate_files w ms a1 s1 = Next a' s'"
    using Cons.IH [of a1 s1] Cons.prems by auto
  ultimately show ?case
    by (auto simp: bind_Next_iff)
qed

lemma str_in_iff: "str_in sub s \<longleftrightarrow> (\<exists>p q. s = p @ sub @ q)"
proof (induction s)
  case Nil
  then show ?case by simp
next
  case (Cons c cs)
  show ?case
  proof
    assume "str_in sub (c # cs)"
    then consider "prefix sub (c # cs)" | "str_in sub cs" by auto
    then show "\<exists>p q. c # cs = p @ sub @ q"
    proof cases
      case 1
      then obtain q where "c # cs = sub @ q" by (auto simp: prefix_def)
      then have "c # cs = [] @ sub @ q" by simp
      then show ?thesis by blast
    next
      case 2
      then obtain p q where "cs = p @ sub @ q" using Cons.IH by blast
      then have "c # cs = (c # p) @ sub @ q" by simp
      then show ?thesis by blast
    qed
  next
    assume "\<exists>p q. c # cs = p @ sub @ q"
    then obtain p q where pq: "c # cs = p @ sub @ q" by blast
    show "str_in sub (c # cs)"
    proof (cases p)
      case Nil
      then have "prefix sub (c # cs)" using pq by (simp add: prefix_def)
      then show ?thesis by simp
    next
      case (Cons x p')
      then have "cs = p' @ sub @ q" using pq by simp
      then have "str_in sub cs" using Cons.IH by blast
      then show ?thesis by simp
    qed
  qed
qed

lemma str_in_join: "e \<in> set es \<Longrightarrow> str_in e (join sep es)"
proof (induction sep es rule: join.induct)
  case (1 sep)
  then show ?case by simp
next
  case (2 sep x)
  then have "x = [] @ e @ []" by simp
  then show ?case unfolding join.simps str_in_iff by blast
next
  case (3 sep x y ys)
  show ?case
  proof (cases "e = x")
    case True
    then have "join sep (x # y # ys) = [] @ e @ (sep @ join sep (y # ys))" by simp
    then show ?thesis unfolding str_in_iff by blast
  next
    case False
    then have "str_in e (join sep (y # ys))" using 3 by simp
    then obtain p q where "join sep (y # ys) = p @ e @ q" unfolding str_in_iff by blast
    then have "join sep (x # y # ys) = (x @ sep @ p) @ e @ q" by simp
    then show ?thesis unfolding str_in_iff by blast
  qed
qed

lemma report_names_every_error: "e \<in> set es \<Longrightarrow> str_in e (failure_report es)"
proof -
  assume "e \<in> set es"
  then obtain p q where "join [CHR 0x0A] es = p @ e @ q"
    using str_in_join [of e es] unfolding str_in_iff by blast
  then have "failure_report es =
      (''Manifest validation failed:'' @ [CHR 0x0A, CHR 0x0A] @ p) @ e
      @ (q @ [CHR 0x0A, CHR 0x0A]
         @ ''Fix the issues and then comment `@bot check` to request a new validation.'')"
    by (simp add: failure_report_def)
  then show ?thesis unfolding str_in_iff by blast
qed

lemma on_failure_posts_report:
  "CreateComment (failure_report (errors a)) \<in> set (new_calls s (on_failure w labs a s))"
proof -
  define rest :: "unit prog" where
    "rest = bind (get_comments w) (\<lambda>cs. seq (delete_marker_comments w cs) Done)"
  define Z :: "unit prog" where "Z = seq (create_comment w (failure_report (errors a))) rest"
  define s1 where "s1 = (if ''Under review'' \<in> set labs then after_remove w ''Under review'' s else s)"
  define s2 where "s2 = (if ''Invalid manifest'' \<notin> set labs then after_add w ''Invalid manifest'' s1 else s1)"
  have run: "on_failure w labs a s = Z s2"
    unfolding on_failure_def Z_def rest_def
    apply (subst seq_apply)
    apply (subst guarded_remove)
    apply (subst res.case)
    apply (subst seq_apply)
    apply (subst guarded_add)
    apply (simp only: res.case s1_def s2_def)
    done
  have "log s2 = log s
      @ (if ''Under review'' \<in> set labs then [RemoveFromLabels ''Under review''] else [])
      @ (if ''Invalid manifest'' \<notin> set labs then [AddToLabels ''Invalid manifest''] else [])"
    by (simp add: s1_def s2_def after_remove_def after_add_def)
  then obtain pre where pre: "log s2 = log s @ pre"
    by blast
  have rest: "calls_only (\<lambda>c. True) rest"
    unfolding rest_def
    by (intro calls_only_bind calls_only_seq calls_only_get_comments
        calls_only_delete_marker_comments calls_only_Done) simp_all
  have "\<exists>cs. log (final (Z s2)) = log s2 @ CreateComment (failure_report (errors a)) # cs"
  proof (cases "fault w (length (log s2)) (CreateComment (failure_report (errors a)))")
    case (Some e)
    then show ?thesis
      by (simp add: Z_def seq_def bind_def create_comment_def api_def Let_def)
  next
    case None
    define s3 where "s3 = s2\<lparr>log := log s2 @ [CreateComment (failure_report (errors a))],
        comments := comments s2 @ [\<lparr>c_id = next_id s2, c_body = Some (failure_report (errors a))\<rparr>],
        next_id := Suc (next_id s2)\<rparr>"
    have "Z s2 = rest s3"
      using None by (simp add: Z_def seq_def bind_def create_comment_def api_def Let_def s3_def)
    moreover obtain cs where "log (final (rest s3)) = log s3 @ cs"
      using calls_onlyD [OF rest, of s3] by blast
    ultimately show ?thesis
      by (simp add: s3_def)
  qed
  then show ?thesis
    using run pre by (auto simp: new_calls_def)
qed

lemma recorded_hashes_keys:
  "fst ` set (recorded_hashes w mfs h) =
     fst ` set h \<union> filename ` {mf \<in> set mfs. \<exists>b. read_manifest_file w mf = Inr b}"
  by (induction mfs arbitrary: h) (auto simp: dom_update split: sum.splits)

lemma recorded_hashes_distinct:
  "distinct (map fst h) \<Longrightarrow> distinct (map fst (recorded_hashes w mfs h))"
  by (induction mfs arbitrary: h) (auto simp: distinct_update split: sum.splits)

lemma recorded_hashes_other:
  "k \<notin> filename ` set mfs \<Longrightarrow> map_of (recorded_hashes w mfs h) k = map_of h k"
  by (induction mfs arbitrary: h) (auto simp: update_conv' split: sum.splits)

lemma recorded_hashes_entry:
  assumes "distinct (map filename mfs)" and "mf \<in> set mfs"
  shows "map_of (recorded_hashes w mfs h) (filename mf) =
     (case read_manifest_file w mf of
        Inl e \<Rightarrow> map_of h (filename mf)
      | Inr b \<Rightarrow> Some (sha256_bytes w b))"
  using assms
proof (induction mfs arbitrary: h)
  case Nil
  then show ?case by simp
next
  case (Cons m ms)
  show ?case
  proof (cases "mf = m")
    case True
    then have "filename mf \<notin> filename ` set ms"
      using Cons.prems(1) by auto
    then show ?thesis
      using True by (simp add: recorded_hashes_other update_conv' split: sum.splits)
  next
    case False
    then have in_ms: "mf \<in> set ms"
      using Cons.prems by auto
    have "filename m \<notin> filename ` set ms"
      using Cons.prems(1) by simp
    then have ne: "filename mf \<noteq> filename m"
      using in_ms by (metis imageI)
    show ?thesis
      using Cons.IH [OF _ in_ms] Cons.prems(1) ne
      by (simp add: update_conv' split: sum.splits)
  qed
qed

lemma hash_manifests_other:
  "k \<notin> filename ` set mfs \<Longrightarrow> map_of (hash_manifests w mfs h) k = map_of h k"
  by (induction mfs arbitrary: h) (auto simp: update_conv')

lemma hash_manifests_entry:
  assumes "distinct (map filename mfs)" and "mf \<in> set mfs"
  shows "map_of (hash_manifests w mfs h) (filename mf) =
     Some (case get_contents w (filename mf) (head_ref w) of
             Inl e \<Rightarrow> None
           | Inr b \<Rightarrow> Some (sha256_bytes w b))"
  using assms
proof (induction mfs arbitrary: h)
  case Nil
  then show ?case by simp
next
  case (Cons m ms)
  show ?case
  proof (cases "mf = m")
    case True
    then have "filename mf \<notin> filename ` set ms"
      using Cons.prems(1) by auto
    then show ?thesis
      using True by (simp add: hash_manifests_other update_conv')
  next
    case False
    then have in_ms: "mf \<in> set ms"
      using Cons.prems by auto
    show ?thesis
      using Cons.IH [OF _ in_ms] Cons.prems(1) by simp
  qed
qed

lemma store_world_read:
  "read_manifest_file (store_world m)
     \<lparr>filename = ''manifests/app.json'', raw_url = Some ''https://raw/manifests/app.json''\<rparr>
   = Inr ''app.json bytes''"
  by (simp add: read_manifest_file_def fetch_checked_def store_world_def)

lemma store_world_manifests:
  "filter is_manifest (pr_files (store_world m)) =
     [\<lparr>filename = ''manifests/app.json'', raw_url = Some ''https://raw/manifests/app.json''\<rparr>]"
  by (simp add: store_world_def is_manifest_def suffix_to_prefix)

lemma show_nat_consts [simp]: "show_nat 4096 = ''4096''" "show_nat 32 = ''32''"
  by (simp_all add: show_nat.simps digit_char_def)


section \<open>A change request without manifests\<close>

text \<open>
  Claim C10. When no changed file is a manifest path, the validation run (from line 135 on)
  leaves the labels as they are and calls nothing but the file listing and the creation of
  the comment "No manifests found in this PR."; when these two calls succeed it returns with
  exactly that comment added and with \<open>validation_success\<close> set to \<open>False\<close>. No label is
  added or removed, no comment is deleted and no ledger comment is published.
\<close>

theorem C10_no_manifests:
  assumes "filter is_manifest (pr_files w) = []"
  shows "labels (final (validate_changed_files w s)) = labels s
       \<and> prefix (new_calls s (validate_changed_files w s))
            [GetFiles, CreateComment ''No manifests found in this PR.'']
       \<and> (fault w (length (log s)) GetFiles = None
          \<and> fault w (Suc (length (log s))) (CreateComment ''No manifests found in this PR.'') = None
          \<longrightarrow> validate_changed_files w s =
                Done (s\<lparr>comments := comments s @ [\<lparr>c_id = next_id s,
                                                  c_body = Some ''No manifests found in this PR.''\<rparr>],
                        next_id := Suc (next_id s),
                        log := log s @ [GetFiles, CreateComment ''No manifests found in this PR.''],
                        validation_success := False\<rparr>))"
  using assms
  by (simp add: validate_changed_files_def get_files_def create_comment_def api_def seq_def
      bind_def ret_def new_calls_def Let_def split: option.splits)

theorem C10_no_manifests_witness:
  "filter is_manifest (pr_files empty_pr_world) = []
   \<and> validate_changed_files empty_pr_world fresh_cr =
       Done \<lparr>labels = [],
             comments = [\<lparr>c_id = 0, c_body = Some ''No manifests found in this PR.''\<rparr>],
             next_id = 1,
             log = [GetFiles, CreateComment ''No manifests found in this PR.''],
             validation_success = False\<rparr>"
  using C10_no_manifests [of empty_pr_world fresh_cr]
  by (simp add: empty_pr_world_def fresh_cr_def)

section \<open>Commands of the dispatcher\<close>

text \<open>
  Claim C1, at the input where the code departs from it. On change request 7, labelled
  "Under review", the user mallory, who is neither moderator, comments "@bot deny". The
  condition of line 123 is false, so the authorisation check of line 124 is skipped and the
  statements of lines 129 to 136 run: the label "Under review" is removed, "Approved" is added
  and the approval is announced. The claim says that this comment changes no label.
\<close>

theorem C1_deny_by_non_moderator_approves:
  "main_bot_commands (comment_world ''@bot deny'' ''mallory'') (fresh_cr\<lparr>labels := [''Under review'']\<rparr>)
   = Done \<lparr>labels = [''Approved''],
           comments = [\<lparr>c_id = 0, c_body = Some (glyph_ok @ '' PR has been approved by moderator.'')\<rparr>],
           next_id = 1,
           log = [GetRepo, GetPull (JInt 7), GetIssue (JInt 7), GetLabels,
                  RemoveFromLabels ''Under review'', AddToLabels ''Approved'',
                  CreateComment (glyph_ok @ '' PR has been approved by moderator.'')],
           validation_success = True\<rparr>"
  by (simp add: main_bot_commands_def comment_world_def fresh_cr_def env_missing_def
      load_event_def lift_def comment_event_def get_pr_number_def get_pr_number_issue_def
      extract_comment_def dispatch_def stmt_deny_def stmt_unknown_def stmt_no_mention_def stmt_check_def stmt_allow_def
      stmt_approve_def remove_labels_def get_labels_def remove_from_labels_def add_to_labels_def
      create_comment_def api_def seq_def bind_def ret_def try_except_def strip_def strip_left.simps
      skip_space_def white_space_def
      MODERATOR_def MODERATOR2_def not_moderator_def Let_def)

text \<open>
  Claim C3. Whatever the event, the comment and its author, the statements of \<open>main\<close> after
  the extraction of the comment behave as the first four of them alone: the approval block of
  lines 129 to 136 never falls through to the next statement, so the \<open>deny\<close> handler (lines
  139 to 151) and the unknown-command notice (line 154) are never run. No run of the
  dispatcher asks for the label "Rejected", posts the rejection message or posts the notice.
\<close>

theorem C3_deny_and_unknown_unreachable:
  "dispatch w event comment_body comment_user =
     seq (stmt_no_mention w event comment_body)
    (seq (stmt_check w comment_body comment_user)
    (seq (stmt_allow w comment_body comment_user)
         (stmt_approve w)))
   \<and> (\<forall>u s'. stmt_approve w s \<noteq> Next u s')
   \<and> AddToLabels ''Rejected'' \<notin> set (new_calls s (main_bot_commands w s))
   \<and> CreateComment (glyph_no @ '' PR has been rejected by moderator.'')
       \<notin> set (new_calls s (main_bot_commands w s))
   \<and> CreateComment unknown_command_msg \<notin> set (new_calls s (main_bot_commands w s))"
proof -
  have m: "calls_only (dispatcher_call w) (main_bot_commands w)"
    by (rule calls_only_main_bot)
  show ?thesis
    using calls_only_never [OF m never_rejected] calls_only_never [OF m never_rejected_msg]
      calls_only_never [OF m never_unknown]
    by (simp add: dispatch_live stmt_approve_not_Next)
qed

text \<open>
  Claim C2 fails at this input. The ledger published on the change request records digest
  \<open>aaaa\<close> for \<open>manifests/app.json\<close>, the file now hashes to \<open>bbbb\<close>, and the moderator
  Artyomka628 comments "@bot allow". \<open>find_marker_comment\<close> would find the ledger and
  \<open>compute_current_hashes\<close> would find the other digest, but \<open>main\<close> calls neither: it lists
  the labels, removes "Under review", adds "Approved" and posts the confirmation.
\<close>

theorem C2_drift_ignored_counterexample:
  "find_marker_comment (comment_world ''@bot allow'' ''Artyomka628'') (comments reviewed_cr)
     = Some (\<lparr>c_id = 0, c_body = Some (MARKER_START @ [CHR 0x0A] @ ledger_text
                                             @ [CHR 0x0A] @ MARKER_END)\<rparr>, ledger_json)
   \<and> compute_current_hashes (comment_world ''@bot allow'' ''Artyomka628'') reviewed_cr
     = Next [(''manifests/app.json'', Some ''bbbb'')] (reviewed_cr\<lparr>log := [GetFiles]\<rparr>)
   \<and> main_bot_commands (comment_world ''@bot allow'' ''Artyomka628'') reviewed_cr
     = Done (reviewed_cr\<lparr>labels := [''Approved''],
           comments := comments reviewed_cr @
              [\<lparr>c_id = 2, c_body = Some (glyph_ok @ '' PR has been approved by moderator.'')\<rparr>],
           next_id := 3,
           log := [GetRepo, GetPull (JInt 7), GetIssue (JInt 7), GetLabels,
                  RemoveFromLabels ''Under review'', AddToLabels ''Approved'',
                  CreateComment (glyph_ok @ '' PR has been approved by moderator.'')]\<rparr>)"
  apply (intro conjI)
  subgoal
    by (simp add: find_marker_comment_def reviewed_cr_def body_or_empty_def MARKER_START_def
        MARKER_END_def str_index_def slice_def strip_def strip_left.simps
      skip_space_def white_space_def comment_world_def
        success_message_def check_mark_def em_dash_def ledger_text_def)
  subgoal
    by (simp add: compute_current_hashes_def get_files_def api_def seq_def bind_def ret_def
        comment_world_def reviewed_cr_def is_manifest_def sha256_bytes_def suffix_to_prefix)
  subgoal
    by (simp add: main_bot_commands_def comment_world_def reviewed_cr_def env_missing_def
      load_event_def lift_def comment_event_def get_pr_number_def get_pr_number_issue_def
      extract_comment_def dispatch_def stmt_deny_def stmt_unknown_def stmt_no_mention_def
      stmt_check_def stmt_allow_def
      stmt_approve_def remove_labels_def get_labels_def remove_from_labels_def add_to_labels_def
      create_comment_def api_def seq_def bind_def ret_def try_except_def strip_def strip_left.simps
      skip_space_def white_space_def
      MODERATOR_def MODERATOR2_def not_moderator_def Let_def)
  done

text \<open>
  Claim C2 as amended. For every authorised \<open>allow\<close> command (a comment that contains
  "@bot allow" and not "@bot check", written by one of the two moderators), the dispatcher
  runs the approval block of lines 129 to 136 and nothing else: it never lists the comments
  and never lists the changed files, so it reads no ledger and computes no digest; and when
  no call fails, it returns with the labels "Invalid manifest", "Under review" and "Rejected"
  removed and "Approved" present, whatever the ledger and the files are.
\<close>

theorem C2_allow_approves_without_ledger:
  assumes "str_in ''@bot allow'' comment_body" and "\<not> str_in ''@bot check'' comment_body"
    and "\<not> not_moderator w comment_user"
  shows "dispatch w event comment_body comment_user s = stmt_approve w s
       \<and> GetComments \<notin> set (new_calls s (stmt_approve w s))
       \<and> GetFiles \<notin> set (new_calls s (stmt_approve w s))
       \<and> ((\<forall>t c. fault w t c = None) \<longrightarrow>
            (\<exists>s'. stmt_approve w s = Done s'
               \<and> labels s' = List.insert ''Approved'' (removeAll ''Rejected''
                      (removeAll ''Under review'' (removeAll ''Invalid manifest'' (labels s))))))"
proof -
  have "GetComments \<notin> set (new_calls s (stmt_approve w s))"
    by (rule calls_only_never [OF stmt_approve_calls]) simp
  moreover have "GetFiles \<notin> set (new_calls s (stmt_approve w s))"
    by (rule calls_only_never [OF stmt_approve_calls]) simp
  ultimately show ?thesis
    using dispatch_allow [OF assms] stmt_approve_no_fault [of w s] by simp
qed

theorem C2_allow_approves_without_ledger_witness:
  "str_in ''@bot allow'' ''@bot allow'' \<and> \<not> str_in ''@bot check'' ''@bot allow''
   \<and> \<not> not_moderator (comment_world ''@bot allow'' ''Artyomka628'') (JStr ''Artyomka628'')
   \<and> (\<forall>t c. fault (comment_world ''@bot allow'' ''Artyomka628'') t c = None)
   \<and> dispatch (comment_world ''@bot allow'' ''Artyomka628'')
        (comment_event ''@bot allow'' ''Artyomka628'') ''@bot allow'' (JStr ''Artyomka628'') reviewed_cr
      = stmt_approve (comment_world ''@bot allow'' ''Artyomka628'') reviewed_cr
   \<and> (\<exists>s'. stmt_approve (comment_world ''@bot allow'' ''Artyomka628'') reviewed_cr = Done s'
          \<and> labels s' = [''Approved''])"
proof -
  have h1: "str_in ''@bot allow'' ''@bot allow''" and h2: "\<not> str_in ''@bot check'' ''@bot allow''"
    by simp_all
  have h3: "\<not> not_moderator (comment_world ''@bot allow'' ''Artyomka628'') (JStr ''Artyomka628'')"
    by (simp add: not_moderator_def MODERATOR_def comment_world_def)
  have h4: "\<forall>t c. fault (comment_world ''@bot allow'' ''Artyomka628'') t c = None"
    by (simp add: comment_world_def)
  show ?thesis
    using C2_allow_approves_without_ledger [OF h1 h2 h3,
        of "comment_event ''@bot allow'' ''Artyomka628''" reviewed_cr] h1 h2 h3 h4
    by (simp add: reviewed_cr_def)
qed

section \<open>Labels after a validation run\<close>

text \<open>
  Claim C4 fails at this input. The change request carries "Approved"; validation is run
  again and fails, because \<open>manifests/app.json\<close> is no JSON document. The only label call
  of the run adds "Invalid manifest", and "Approved" is still there at the end.
\<close>

theorem C4_approved_survives_counterexample:
  "labels (final (validate_manifest_script (comment_world ''@bot check'' ''alice'')
                    (fresh_cr\<lparr>labels := [''Approved'']\<rparr>)))
     = [''Invalid manifest'', ''Approved'']
   \<and> \<not> validation_success (final (validate_manifest_script (comment_world ''@bot check'' ''alice'')
                    (fresh_cr\<lparr>labels := [''Approved'']\<rparr>)))
   \<and> filter is_label_call (log (final (validate_manifest_script (comment_world ''@bot check'' ''alice'')
                    (fresh_cr\<lparr>labels := [''Approved'']\<rparr>))))
     = [AddToLabels ''Invalid manifest'']"
  by (simp add: validate_manifest_script_def main_validate_manifest_def comment_world_def
      fresh_cr_def env_missing_def load_event_def lift_def comment_event_def get_pr_number_def
      get_pr_number_issue_def validate_changed_files_def get_files_def is_manifest_def
      suffix_to_prefix validate_file_def read_manifest_file_def sha256_bytes_def
      REQUIRED_FIELDS_def add_error_def check_icon_def check_url_def get_labels_def
      on_failure_def add_to_labels_def create_comment_def get_comments_def body_or_empty_def
      failure_report_def MARKER_START_def api_def seq_def bind_def ret_def try_except_def
      Let_def is_label_call_def ledger_text_def cross_mark_def)

text \<open>
  Claim C4 as amended. On a failed validation the label calls are, in this order, the removal
  of "Under review" if the label list read at line 210 has it, and the addition of
  "Invalid manifest" if that list lacks it; there is no other label call. No validation run
  removes "Approved" or "Rejected": a change request that carries one of them before the run
  carries it after the run, however the run ends.
\<close>

theorem C4_failure_transition:
  "filter is_label_call (new_calls s (on_failure w labs a s)) =
     (if ''Under review'' \<in> set labs then [RemoveFromLabels ''Under review''] else [])
     @ (if ''Invalid manifest'' \<notin> set labs then [AddToLabels ''Invalid manifest''] else [])
   \<and> (''Approved'' \<in> set (labels s)
        \<longrightarrow> ''Approved'' \<in> set (labels (final (validate_manifest_script w s))))
   \<and> (''Rejected'' \<in> set (labels s)
        \<longrightarrow> ''Rejected'' \<in> set (labels (final (validate_manifest_script w s))))"
proof -
  have v: "calls_only validator_call (validate_manifest_script w)"
    by (rule calls_only_validate_script)
  have "l \<in> set (labels (final (validate_manifest_script w s)))"
    if "l \<in> set (labels s)" and "l = ''Approved'' \<or> l = ''Rejected''" for l
    using that by (intro calls_only_keeps_label [OF v]) auto
  then show ?thesis
    using on_failure_label_calls [of s w labs a] by simp
qed

theorem C4_failure_transition_witness:
  "''Approved'' \<in> set (labels (fresh_cr\<lparr>labels := [''Approved'', ''Rejected'', ''Under review'']\<rparr>))
   \<and> ''Rejected'' \<in> set (labels (fresh_cr\<lparr>labels := [''Approved'', ''Rejected'', ''Under review'']\<rparr>))
   \<and> ''Approved'' \<in> set (labels (final (validate_manifest_script (comment_world ''@bot check'' ''alice'')
          (fresh_cr\<lparr>labels := [''Approved'', ''Rejected'', ''Under review'']\<rparr>))))
   \<and> ''Rejected'' \<in> set (labels (final (validate_manifest_script (comment_world ''@bot check'' ''alice'')
          (fresh_cr\<lparr>labels := [''Approved'', ''Rejected'', ''Under review'']\<rparr>))))
   \<and> filter is_label_call
        (new_calls (fresh_cr\<lparr>labels := [''Approved'', ''Rejected'', ''Under review'']\<rparr>)
          (on_failure (comment_world ''@bot check'' ''alice'')
             [''Approved'', ''Rejected'', ''Under review''] \<lparr>errors = [''e''], current_hashes = []\<rparr>
             (fresh_cr\<lparr>labels := [''Approved'', ''Rejected'', ''Under review'']\<rparr>)))
      = [RemoveFromLabels ''Under review'', AddToLabels ''Invalid manifest'']"
  using C4_failure_transition [of "fresh_cr\<lparr>labels := [''Approved'', ''Rejected'', ''Under review'']\<rparr>"
      "comment_world ''@bot check'' ''alice''" "[''Approved'', ''Rejected'', ''Under review'']"
      "\<lparr>errors = [''e''], current_hashes = []\<rparr>"]
  by (simp add: fresh_cr_def)

section \<open>The outcome of a validation run\<close>

text \<open>
  Claim C5 fails at this input. The change request touches no manifest file: the file loop,
  run over the (empty) list of manifest files, accumulates no error, and yet the run does
  not succeed: it sets \<open>validation_success\<close> to \<open>False\<close> and returns after the comment
  "No manifests found in this PR.", without the label "Under review" and without a ledger.
\<close>

theorem C5_no_manifest_counterexample:
  "validate_files empty_pr_world (filter is_manifest (pr_files empty_pr_world))
      \<lparr>errors = [], current_hashes = []\<rparr> (fresh_cr\<lparr>log := [GetFiles]\<rparr>)
     = Next \<lparr>errors = [], current_hashes = []\<rparr> (fresh_cr\<lparr>log := [GetFiles]\<rparr>)
   \<and> validate_changed_files empty_pr_world fresh_cr =
       Done \<lparr>labels = [],
             comments = [\<lparr>c_id = 0, c_body = Some ''No manifests found in this PR.''\<rparr>],
             next_id = 1,
             log = [GetFiles, CreateComment ''No manifests found in this PR.''],
             validation_success = False\<rparr>"
  by (simp add: empty_pr_world_def fresh_cr_def ret_def validate_changed_files_def get_files_def
      create_comment_def api_def seq_def bind_def)

text \<open>
  Claim C5 as amended. Take a validation run, started with \<open>validation_success\<close> set, on a
  change request with at least one manifest file, in which listing the files does not fail
  and every manifest that parses is a JSON object. Then the file loop finishes; at its end
  \<open>validation_success\<close> is set exactly if no error was accumulated; the run continues with
  the success path if the error list is empty and with the failure path otherwise; for every
  manifest file that was read and parsed, each required field it lacks has its own line in
  the error list; every line of the error list occurs in the report; and the failure path
  always asks for that report to be posted.
\<close>

theorem C5_run_succeeds_iff_no_errors:
  assumes files: "\<forall>t. fault w t GetFiles = None"
    and objs: "\<forall>mf \<in> set (filter is_manifest (pr_files w)). \<forall>b j.
                 read_manifest_file w mf = Inr b \<longrightarrow> json_loads w b = Inr j
                 \<longrightarrow> (\<exists>kvs. j = JObj kvs)"
    and some: "filter is_manifest (pr_files w) \<noteq> []"
    and fresh: "validation_success s"
  shows "\<exists>a s'.
       validate_files w (filter is_manifest (pr_files w)) \<lparr>errors = [], current_hashes = []\<rparr>
         (s\<lparr>log := log s @ [GetFiles]\<rparr>) = Next a s'
     \<and> (validation_success s' \<longleftrightarrow> errors a = [])
     \<and> validate_changed_files w s =
         bind (get_labels w)
           (\<lambda>labs. if errors a = [] then on_success w labs a else on_failure w labs a) s'
     \<and> (\<forall>mf \<in> set (filter is_manifest (pr_files w)). \<forall>b kvs f.
           read_manifest_file w mf = Inr b \<and> json_loads w b = Inr (JObj kvs)
           \<and> f \<in> set REQUIRED_FIELDS \<and> map_of kvs f = None
           \<longrightarrow> missing_field_line (filename mf) f \<in> set (errors a))
     \<and> (\<forall>e \<in> set (errors a). str_in e (failure_report (errors a)))
     \<and> (\<forall>labs t. CreateComment (failure_report (errors a))
            \<in> set (new_calls t (on_failure w labs a t)))"
proof -
  define mfs where "mfs = filter is_manifest (pr_files w)"
  define s1 where "s1 = s\<lparr>log := log s @ [GetFiles]\<rparr>"
  define a0 where "a0 = \<lparr>errors = [], current_hashes = []\<rparr>"
  obtain a s' where loop: "validate_files w mfs a0 s1 = Next a s'"
    using validate_files_Next [OF files, of mfs a0 s1] objs unfolding mfs_def by blast
  have g: "grows a0 s1 a s'"
    by (rule grows_validate_files [OF loop])
  have flag: "validation_success s' \<longleftrightarrow> errors a = []"
    using g fresh by (auto simp: grows_def s1_def a0_def)
  have "get_files w s = Next (pr_files w) s1"
    using files by (simp add: get_files_def api_def seq_def bind_def ret_def s1_def)
  then have "validate_changed_files w s =
      bind (get_labels w) (\<lambda>labs s. if \<not> validation_success s then on_failure w labs a s
                                      else on_success w labs a s) s'"
    using some loop
    by (simp add: validate_changed_files_def bind_def Let_def mfs_def [symmetric] a0_def [symmetric])
  also have "\<dots> = bind (get_labels w)
           (\<lambda>labs. if errors a = [] then on_success w labs a else on_failure w labs a) s'"
    using flag by (simp add: bind_def get_labels_def seq_def api_def Let_def split: option.splits)
  finally have run: "validate_changed_files w s =
      bind (get_labels w)
        (\<lambda>labs. if errors a = [] then on_success w labs a else on_failure w labs a) s'" .
  have missing: "missing_field_line (filename mf) f \<in> set (errors a)"
    if "mf \<in> set mfs" "read_manifest_file w mf = Inr b" "json_loads w b = Inr (JObj kvs)"
      "f \<in> set REQUIRED_FIELDS" "map_of kvs f = None" for mf b kvs f
    using validate_files_names_missing [OF loop that] .
  show ?thesis
    unfolding mfs_def [symmetric] s1_def [symmetric] a0_def [symmetric]
    using loop flag run missing report_names_every_error on_failure_posts_report
    by (intro exI [of _ a] exI [of _ s']) (auto simp: mfs_def)
qed

theorem C5_run_succeeds_iff_no_errors_witness:
  "(\<forall>t. fault (store_world app_manifest) t GetFiles = None)
   \<and> filter is_manifest (pr_files (store_world app_manifest)) \<noteq> []
   \<and> validation_success fresh_cr
   \<and> (\<exists>a s'. validate_files (store_world app_manifest)
                  (filter is_manifest (pr_files (store_world app_manifest)))
                  \<lparr>errors = [], current_hashes = []\<rparr> (fresh_cr\<lparr>log := log fresh_cr @ [GetFiles]\<rparr>)
                = Next a s'
         \<and> missing_field_line ''manifests/app.json'' ''author'' \<in> set (errors a)
         \<and> str_in (missing_field_line ''manifests/app.json'' ''author'') (failure_report (errors a))
         \<and> \<not> validation_success s')"
proof -
  have h1: "\<forall>t. fault (store_world app_manifest) t GetFiles = None"
    by (simp add: store_world_def)
  have h2: "\<forall>mf \<in> set (filter is_manifest (pr_files (store_world app_manifest))). \<forall>b j.
      read_manifest_file (store_world app_manifest) mf = Inr b
      \<longrightarrow> json_loads (store_world app_manifest) b = Inr j \<longrightarrow> (\<exists>kvs. j = JObj kvs)"
    by (simp add: store_world_manifests store_world_read) (simp add: store_world_def app_manifest_def)
  have h3: "filter is_manifest (pr_files (store_world app_manifest)) \<noteq> []"
    by (simp add: store_world_manifests)
  have h4: "validation_success fresh_cr"
    by (simp add: fresh_cr_def)
  have parse: "json_loads (store_world app_manifest) ''app.json bytes'' = Inr app_manifest"
    by (simp add: store_world_def)
  have lacks: "''author'' \<in> set REQUIRED_FIELDS"
    "\<exists>kvs. app_manifest = JObj kvs \<and> map_of kvs ''author'' = None"
    by (simp_all add: REQUIRED_FIELDS_def app_manifest_def)
  from C5_run_succeeds_iff_no_errors [OF h1 h2 h3 h4] obtain a s' where
    r: "validate_files (store_world app_manifest)
          (filter is_manifest (pr_files (store_world app_manifest)))
          \<lparr>errors = [], current_hashes = []\<rparr> (fresh_cr\<lparr>log := log fresh_cr @ [GetFiles]\<rparr>) = Next a s'"
      "validation_success s' \<longleftrightarrow> errors a = []"
      "\<forall>mf \<in> set (filter is_manifest (pr_files (store_world app_manifest))). \<forall>b kvs f.
           read_manifest_file (store_world app_manifest) mf = Inr b
           \<and> json_loads (store_world app_manifest) b = Inr (JObj kvs)
           \<and> f \<in> set REQUIRED_FIELDS \<and> map_of kvs f = None
           \<longrightarrow> missing_field_line (filename mf) f \<in> set (errors a)"
      "\<forall>e \<in> set (errors a). str_in e (failure_report (errors a))"
    by blast
  from lacks(2) obtain kvs where kvs: "app_manifest = JObj kvs" "map_of kvs ''author'' = None"
    by blast
  have line: "missing_field_line ''manifests/app.json'' ''author'' \<in> set (errors a)"
    using r(3) store_world_read [of app_manifest] parse lacks(1) kvs
    by (simp add: store_world_manifests)
  then have "errors a \<noteq> []" by auto
  then show ?thesis
    using h1 h3 h4 r(1,2,4) line by blast
qed

section \<open>The entries of the ledger\<close>

text \<open>
  Claim C6 fails at this input. The one manifest file of the change request cannot be read.
  The loop processes it, records the read error, and leaves \<open>current_hashes\<close> empty: the
  path is omitted, it is not mapped to a null sentinel.
\<close>

theorem C6_unreadable_file_counterexample:
  "validate_files unreadable_world (filter is_manifest (pr_files unreadable_world))
      \<lparr>errors = [], current_hashes = []\<rparr> fresh_cr
   = Next \<lparr>errors = [cross_mark @ '' manifests/app.json: failed to read file from PR branch: 404''],
           current_hashes = []\<rparr>
          (fresh_cr\<lparr>validation_success := False\<rparr>)"
  by (simp add: unreadable_world_def empty_pr_world_def fresh_cr_def is_manifest_def
      suffix_to_prefix validate_file_def read_manifest_file_def add_error_def bind_def ret_def)

text \<open>
  Claim C6 as amended. Take the file loop of a validation run over manifest files with
  pairwise different paths. Whenever the loop finishes, \<open>current_hashes\<close> has at most one
  entry per path: the path of a file whose bytes were read is mapped to the digest of these
  bytes, whether or not the file passes the checks that follow, and the path of a file that
  could not be read has no entry. The loop does finish when listing the files never fails
  and every manifest that parses is a JSON object. The null sentinel belongs to
  \<open>compute_current_hashes\<close> of the dispatcher, which gives every manifest path an entry,
  \<open>None\<close> when the content cannot be read.
\<close>

theorem C6_ledger_entries:
  assumes names: "distinct (map filename mfs)"
  shows "(\<forall>a s'. validate_files w mfs \<lparr>errors = [], current_hashes = []\<rparr> s = Next a s' \<longrightarrow>
            distinct (map fst (current_hashes a))
          \<and> (\<forall>mf \<in> set mfs. map_of (current_hashes a) (filename mf) =
                (case read_manifest_file w mf of
                   Inl e \<Rightarrow> None
                 | Inr b \<Rightarrow> Some (sha256_bytes w b))))
     \<and> ((\<forall>t. fault w t GetFiles = None)
         \<and> (\<forall>mf \<in> set mfs. \<forall>b j.
               read_manifest_file w mf = Inr b \<longrightarrow> json_loads w b = Inr j
               \<longrightarrow> (\<exists>kvs. j = JObj kvs))
         \<longrightarrow> (\<exists>a s'. validate_files w mfs \<lparr>errors = [], current_hashes = []\<rparr> s = Next a s'))
     \<and> (\<forall>mf \<in> set mfs. map_of (hash_manifests w mfs []) (filename mf) =
           Some (case get_contents w (filename mf) (head_ref w) of
                   Inl e \<Rightarrow> None
                 | Inr b \<Rightarrow> Some (sha256_bytes w b)))"
proof (intro conjI allI impI)
  fix a s'
  assume loop: "validate_files w mfs \<lparr>errors = [], current_hashes = []\<rparr> s = Next a s'"
  have h: "current_hashes a = recorded_hashes w mfs []"
    using validate_files_hashes [OF loop] by simp
  show "distinct (map fst (current_hashes a))"
    unfolding h by (rule recorded_hashes_distinct) simp
  show "\<forall>mf \<in> set mfs. map_of (current_hashes a) (filename mf) =
           (case read_manifest_file w mf of
              Inl e \<Rightarrow> None
            | Inr b \<Rightarrow> Some (sha256_bytes w b))"
  proof
    fix mf
    assume "mf \<in> set mfs"
    then show "map_of (current_hashes a) (filename mf) =
           (case read_manifest_file w mf of
              Inl e \<Rightarrow> None
            | Inr b \<Rightarrow> Some (sha256_bytes w b))"
      unfolding h using recorded_hashes_entry [OF names, of mf w "[]"]
      by (simp split: sum.splits)
  qed
next
  assume "(\<forall>t. fault w t GetFiles = None)
         \<and> (\<forall>mf \<in> set mfs. \<forall>b j.
               read_manifest_file w mf = Inr b \<longrightarrow> json_loads w b = Inr j
               \<longrightarrow> (\<exists>kvs. j = JObj kvs))"
  then show "\<exists>a s'. validate_files w mfs \<lparr>errors = [], current_hashes = []\<rparr> s = Next a s'"
    using validate_files_Next [of w mfs] by blast
next
  show "\<forall>mf \<in> set mfs. map_of (hash_manifests w mfs []) (filename mf) =
           Some (case get_contents w (filename mf) (head_ref w) of
                   Inl e \<Rightarrow> None
                 | Inr b \<Rightarrow> Some (sha256_bytes w b))"
    using hash_manifests_entry [OF names] by blast
qed

theorem C6_ledger_entries_witness:
  "distinct (map filename (filter is_manifest (pr_files (store_world app_manifest))))
   \<and> (\<exists>a s'. validate_files (store_world app_manifest)
                  (filter is_manifest (pr_files (store_world app_manifest)))
                  \<lparr>errors = [], current_hashes = []\<rparr> fresh_cr = Next a s'
         \<and> map_of (current_hashes a) ''manifests/app.json'' = Some ''sha256(app.json bytes)'')"
proof -
  have h1: "\<forall>t. fault (store_world app_manifest) t GetFiles = None"
    by (simp add: store_world_def)
  have h2: "\<forall>mf \<in> set (filter is_manifest (pr_files (store_world app_manifest))). \<forall>b j.
      read_manifest_file (store_world app_manifest) mf = Inr b
      \<longrightarrow> json_loads (store_world app_manifest) b = Inr j \<longrightarrow> (\<exists>kvs. j = JObj kvs)"
    by (simp add: store_world_manifests store_world_read) (simp add: store_world_def app_manifest_def)
  have h3: "distinct (map filename (filter is_manifest (pr_files (store_world app_manifest))))"
    by (simp add: store_world_manifests)
  have digest: "sha256_bytes (store_world app_manifest) ''app.json bytes'' = ''sha256(app.json bytes)''"
    by (simp add: sha256_bytes_def store_world_def)
  note c6 = C6_ledger_entries [OF h3, of "store_world app_manifest" fresh_cr]
  from c6 h1 h2 obtain a s' where
    loop: "validate_files (store_world app_manifest)
             (filter is_manifest (pr_files (store_world app_manifest)))
             \<lparr>errors = [], current_hashes = []\<rparr> fresh_cr = Next a s'"
    by blast
  with c6 have "\<forall>mf \<in> set (filter is_manifest (pr_files (store_world app_manifest))).
      map_of (current_hashes a) (filename mf) =
        (case read_manifest_file (store_world app_manifest) mf of
           Inl e \<Rightarrow> None
         | Inr b \<Rightarrow> Some (sha256_bytes (store_world app_manifest) b))"
    by blast
  then have "map_of (current_hashes a) ''manifests/app.json'' = Some ''sha256(app.json bytes)''"
    by (simp add: store_world_manifests store_world_read digest)
  then show ?thesis
    using h3 loop by blast
qed

section \<open>The artifact of a manifest\<close>

text \<open>
  Claim C8 fails at this input. The manifest declares the digest \<open>deadbeef\<close> and a \<open>url\<close>
  that answers with status 204, a status of the 2xx class, and an empty body, whose digest
  is not \<open>deadbeef\<close>. The code records "URL returned HTTP 204" and compares no digest; the
  claim has no fetch error for a 2xx status and a mismatch naming both digests.
\<close>

theorem C8_status_204_counterexample:
  "check_url (store_world app_manifest) ''manifests/app.json'' (JStr ''https://example.org/empty'')
     (JStr ''deadbeef'') \<lparr>errors = [], current_hashes = []\<rparr> fresh_cr
   = Next \<lparr>errors = [cross_mark @ '' manifests/app.json: URL returned HTTP 204''],
           current_hashes = []\<rparr>
          (fresh_cr\<lparr>validation_success := False\<rparr>)
   \<and> JStr (sha256_bytes (store_world app_manifest) []) \<noteq> JStr ''deadbeef''"
  by (simp add: check_url_def store_world_def py_str_def add_error_def show_nat.simps
      digit_char_def sha256_bytes_def)

text \<open>
  Claim C8 as amended. For each manifest file the block of lines 192 to 208 records exactly
  one of the following, or nothing. If \<open>url\<close> is absent or empty ("falsy"), the line
  "url is empty". If \<open>url\<close> is present and the fetch raises, the line "failed to download
  file" with the message. If the fetch answers with a status other than 200, the line
  "URL returned HTTP" with the status. If the status is 200, \<open>sha256\<close> is present
  ("truthy") and differs from the digest of the fetched bytes, the line "sha256 mismatch",
  which names the declared and the actual value. In the remaining case, status 200 with
  \<open>sha256\<close> absent or equal to the digest, nothing is recorded and the state is unchanged.
  For a manifest file that was read and that parses to an object, the body of the file loop
  ends with this block, run on \<open>manifest.get("url")\<close> and \<open>manifest.get("sha256")\<close>,
  after the icon check.
\<close>

theorem C8_url_and_artifact_errors:
  "(\<not> truthy url \<longrightarrow>
      check_url w fname url declared a s = add_error (url_empty_line fname) a s)
   \<and> (truthy url \<longrightarrow>
        (\<forall>e. requests_get w (py_str w url) = Inl e \<longrightarrow>
           check_url w fname url declared a s = add_error (fetch_error_line fname e) a s)
      \<and> (\<forall>rr. requests_get w (py_str w url) = Inr rr \<longrightarrow>
           (status_code rr \<noteq> 200 \<longrightarrow>
              check_url w fname url declared a s
                = add_error (http_status_line fname (status_code rr)) a s)
         \<and> (status_code rr = 200 \<and> truthy declared
              \<and> declared \<noteq> JStr (sha256_bytes w (content rr)) \<longrightarrow>
              check_url w fname url declared a s
                = add_error (hash_mismatch_line fname (py_str w declared)
                               (sha256_bytes w (content rr))) a s)
         \<and> (status_code rr = 200
              \<and> (\<not> truthy declared \<or> declared = JStr (sha256_bytes w (content rr))) \<longrightarrow>
              check_url w fname url declared a s = Next a s)))
   \<and> str_in expected (hash_mismatch_line fname expected actual)
   \<and> str_in actual (hash_mismatch_line fname expected actual)
   \<and> (read_manifest_file w mf = Inr b \<and> json_loads w b = Inr (JObj kvs) \<longrightarrow>
        (\<exists>a2 s2. validate_file w mf a0 s0 =
           bind (check_icon w (filename mf)
                   (case map_of kvs ''package'' of None \<Rightarrow> JNull | Some v \<Rightarrow> v) a2)
                (check_url w (filename mf)
                   (case map_of kvs ''url'' of None \<Rightarrow> JNull | Some v \<Rightarrow> v)
                   (case map_of kvs ''sha256'' of None \<Rightarrow> JNull | Some v \<Rightarrow> v)) s2))"
proof -
  have "hash_mismatch_line fname expected actual =
      (cross_mark @ '' '' @ fname @ '': sha256 mismatch (expected '') @ expected
      @ ('', got '' @ actual @ '')'')"
    and "hash_mismatch_line fname expected actual =
      (cross_mark @ '' '' @ fname @ '': sha256 mismatch (expected '' @ expected @ '', got '')
      @ actual @ '')''"
    by (simp_all add: hash_mismatch_line_def)
  then have "str_in expected (hash_mismatch_line fname expected actual)"
    and "str_in actual (hash_mismatch_line fname expected actual)"
    unfolding str_in_iff by blast+
  moreover have "\<exists>a2 s2. validate_file w mf a0 s0 =
           bind (check_icon w (filename mf)
                   (case map_of kvs ''package'' of None \<Rightarrow> JNull | Some v \<Rightarrow> v) a2)
                (check_url w (filename mf)
                   (case map_of kvs ''url'' of None \<Rightarrow> JNull | Some v \<Rightarrow> v)
                   (case map_of kvs ''sha256'' of None \<Rightarrow> JNull | Some v \<Rightarrow> v)) s2"
    if "read_manifest_file w mf = Inr b" and "json_loads w b = Inr (JObj kvs)"
    using validate_file_obj [OF that] by blast
  moreover have "(\<not> truthy url \<longrightarrow>
      check_url w fname url declared a s = add_error (url_empty_line fname) a s)
   \<and> (truthy url \<longrightarrow>
        (\<forall>e. requests_get w (py_str w url) = Inl e \<longrightarrow>
           check_url w fname url declared a s = add_error (fetch_error_line fname e) a s)
      \<and> (\<forall>rr. requests_get w (py_str w url) = Inr rr \<longrightarrow>
           (status_code rr \<noteq> 200 \<longrightarrow>
              check_url w fname url declared a s
                = add_error (http_status_line fname (status_code rr)) a s)
         \<and> (status_code rr = 200 \<and> truthy declared
              \<and> declared \<noteq> JStr (sha256_bytes w (content rr)) \<longrightarrow>
              check_url w fname url declared a s
                = add_error (hash_mismatch_line fname (py_str w declared)
                               (sha256_bytes w (content rr))) a s)
         \<and> (status_code rr = 200
              \<and> (\<not> truthy declared \<or> declared = JStr (sha256_bytes w (content rr))) \<longrightarrow>
              check_url w fname url declared a s = Next a s)))"
    by (auto simp: check_url_def Let_def ret_def url_empty_line_def fetch_error_line_def
        http_status_line_def hash_mismatch_line_def)
  ultimately show ?thesis
    by blast
qed

theorem C8_url_and_artifact_errors_witness:
  "\<not> truthy (JStr []) \<and> truthy (JStr ''https://example.org/app.bin'')
   \<and> check_url (store_world app_manifest) ''manifests/app.json'' (JStr []) (JStr ''deadbeef'')
        \<lparr>errors = [], current_hashes = []\<rparr> fresh_cr
      = Next \<lparr>errors = [url_empty_line ''manifests/app.json''], current_hashes = []\<rparr>
          (fresh_cr\<lparr>validation_success := False\<rparr>)
   \<and> check_url (store_world app_manifest) ''manifests/app.json'' (JStr ''https://nowhere'')
        (JStr ''deadbeef'') \<lparr>errors = [], current_hashes = []\<rparr> fresh_cr
      = Next \<lparr>errors = [fetch_error_line ''manifests/app.json'' ''connection refused''],
              current_hashes = []\<rparr> (fresh_cr\<lparr>validation_success := False\<rparr>)
   \<and> check_url (store_world app_manifest) ''manifests/app.json'' (JStr ''https://example.org/gone'')
        (JStr ''deadbeef'') \<lparr>errors = [], current_hashes = []\<rparr> fresh_cr
      = Next \<lparr>errors = [http_status_line ''manifests/app.json'' 404], current_hashes = []\<rparr>
          (fresh_cr\<lparr>validation_success := False\<rparr>)
   \<and> check_url (store_world app_manifest) ''manifests/app.json'' (JStr ''https://example.org/app.bin'')
        (JStr ''deadbeef'') \<lparr>errors = [], current_hashes = []\<rparr> fresh_cr
      = Next \<lparr>errors = [hash_mismatch_line ''manifests/app.json'' ''deadbeef''
                          ''sha256(app.bin bytes)''],
              current_hashes = []\<rparr> (fresh_cr\<lparr>validation_success := False\<rparr>)
   \<and> check_url (store_world app_manifest) ''manifests/app.json'' (JStr ''https://example.org/app.bin'')
        (JStr ''sha256(app.bin bytes)'') \<lparr>errors = [], current_hashes = []\<rparr> fresh_cr
      = Next \<lparr>errors = [], current_hashes = []\<rparr> fresh_cr"
  using
    C8_url_and_artifact_errors [of "JStr []" "store_world app_manifest" "''manifests/app.json''"
      "JStr ''deadbeef''" "\<lparr>errors = [], current_hashes = []\<rparr>" fresh_cr]
    C8_url_and_artifact_errors [of "JStr ''https://nowhere''" "store_world app_manifest"
      "''manifests/app.json''" "JStr ''deadbeef''" "\<lparr>errors = [], current_hashes = []\<rparr>" fresh_cr]
    C8_url_and_artifact_errors [of "JStr ''https://example.org/gone''" "store_world app_manifest"
      "''manifests/app.json''" "JStr ''deadbeef''" "\<lparr>errors = [], current_hashes = []\<rparr>" fresh_cr]
    C8_url_and_artifact_errors [of "JStr ''https://example.org/app.bin''" "store_world app_manifest"
      "''manifests/app.json''" "JStr ''deadbeef''" "\<lparr>errors = [], current_hashes = []\<rparr>" fresh_cr]
    C8_url_and_artifact_errors [of "JStr ''https://example.org/app.bin''" "store_world app_manifest"
      "''manifests/app.json''" "JStr ''sha256(app.bin bytes)''"
      "\<lparr>errors = [], current_hashes = []\<rparr>" fresh_cr]
  by (simp add: store_world_def py_str_def sha256_bytes_def add_error_def)

section \<open>The icon of a package\<close>



section \<open>Publishing and reading the ledger\<close>

text \<open>
  Claim C7, at the input where the code departs from it. The change request has the manifest
  \<open>manifests/END MANIFEST_HASHES -->.json\<close>, so the ledger has this path as a key. The
  \<open>json\<close> module prints the ledger and reads the printed text back. \<open>post_marker_comment\<close>
  publishes the ledger in a comment. \<open>find_marker_comment\<close>, given that comment, takes the
  text between the start marker and the first end marker after it, which is the one inside
  the key; that text is no JSON document, the comment is skipped, and nothing is returned.
\<close>

theorem C7_delimiter_in_path_breaks_round_trip:
  "hashes_json [(collision_path, ''aaaa'')] = collision_ledger
   \<and> json_loads collision_world
         (strip ([CHR 0x0A] @ json_dumps collision_world collision_ledger @ [CHR 0x0A]))
       = Inr collision_ledger
   \<and> post_marker_comment collision_world collision_ledger fresh_cr
       = Next () (fresh_cr
           \<lparr>comments := [\<lparr>c_id = 0, c_body = Some (marker_body collision_world collision_ledger)\<rparr>],
            next_id := 1,
            log := [GetComments, CreateComment (marker_body collision_world collision_ledger)]\<rparr>)
   \<and> find_marker_comment collision_world
         [\<lparr>c_id = 0, c_body = Some (marker_body collision_world collision_ledger)\<rparr>]
       = None"
  apply (intro conjI)
  subgoal
    by (simp add: hashes_json_def collision_ledger_def)
  subgoal
    by (simp add: collision_world_def empty_pr_world_def collision_text_def collision_path_def
        strip_def strip_left.simps skip_space_def white_space_def)
  subgoal
    by (simp add: post_marker_comment_def get_comments_def create_comment_def api_def seq_def
        bind_def ret_def collision_world_def empty_pr_world_def fresh_cr_def marker_body_def)
  subgoal
    by (simp add: find_marker_comment_def body_or_empty_def marker_body_def MARKER_START_def
        MARKER_END_def str_index_def slice_def collision_world_def empty_pr_world_def
        collision_text_def collision_path_def collision_ledger_def strip_def strip_left.simps
        skip_space_def white_space_def)
  done

end
